theory Spec2Isabelle
  imports Main "HOL-Library.Word"
begin

section \<open>Memory\<close>

text \<open>
  The two classes own heap storage through \<^verbatim>\<open>std::unique_ptr<char[]>\<close> and
  \<^verbatim>\<open>std::vector<char>\<close>. The heap is modelled explicitly: \<open>bytes\<close> is the physical
  content of every address and keeps its value when a block is released, \<open>live\<close> lists
  the allocated blocks as (base, length), and \<open>brk\<close>/\<open>limit\<close> drive a bump allocator
  that never hands out an address twice. A pointer is an address or \<open>None\<close> for
  \<^verbatim>\<open>nullptr\<close>. A write through the null pointer or outside a live block is an
  \<open>invalid_access\<close>, so an operation that succeeds has written to storage only while
  it was still allocated.
\<close>

type_synonym addr = nat
type_synonym byte = "8 word"
type_synonym size_t = "64 word"
type_synonym ptr = "addr option"

datatype error = bad_alloc | invalid_access | invalid_free | no_object

record memory =
  bytes :: "addr \<Rightarrow> byte"
  live :: "(addr \<times> nat) list"
  brk :: addr
  limit :: addr

definition allocated :: "memory \<Rightarrow> addr \<Rightarrow> bool" where
  "allocated m a = list_ex (\<lambda>(b, n). b \<le> a \<and> a < b + n) (live m)"

text \<open>Reading \<^verbatim>\<open>*p\<close>, and the assignment \<^verbatim>\<open>*p = v\<close>.\<close>

definition load :: "memory \<Rightarrow> ptr \<Rightarrow> error + byte" where
  "load m p =
     (case p of
        None \<Rightarrow> Inl invalid_access
      | Some a \<Rightarrow> if allocated m a then Inr (bytes m a) else Inl invalid_access)"

definition store :: "memory \<Rightarrow> ptr \<Rightarrow> byte \<Rightarrow> error + memory" where
  "store m p v =
     (case p of
        None \<Rightarrow> Inl invalid_access
      | Some a \<Rightarrow>
          if allocated m a then Inr (m\<lparr>bytes := (bytes m)(a := v)\<rparr>)
          else Inl invalid_access)"

text \<open>\<^verbatim>\<open>p + k\<close>\<close>

definition ptr_add :: "ptr \<Rightarrow> nat \<Rightarrow> ptr" where
  "ptr_add p k = map_option (\<lambda>a. a + k) p"

text \<open>
  \<^verbatim>\<open>new char[n]()\<close>, as \<^verbatim>\<open>std::make_unique<char[]>(n)\<close> and the allocation of
  \<^verbatim>\<open>std::vector<char>::resize\<close> perform it: a fresh block of \<open>n\<close> value-initialised
  (zero) bytes, or \<^verbatim>\<open>std::bad_alloc\<close> when the heap has no room. A block of length 0
  still gets an address of its own.
\<close>

definition new_array :: "memory \<Rightarrow> nat \<Rightarrow> error + (addr \<times> memory)" where
  "new_array m n =
     (if limit m < brk m + max 1 n then Inl bad_alloc
      else Inr (brk m,
                m\<lparr>bytes := (\<lambda>a. if brk m \<le> a \<and> a < brk m + n then 0 else bytes m a),
                  live := (brk m, n) # live m,
                  brk := brk m + max 1 n\<rparr>))"

text \<open>\<^verbatim>\<open>delete[] p\<close>: nothing for the null pointer; the block leaves \<open>live\<close>, its bytes stay.\<close>

definition delete_array :: "memory \<Rightarrow> ptr \<Rightarrow> error + memory" where
  "delete_array m p =
     (case p of
        None \<Rightarrow> Inr m
      | Some a \<Rightarrow>
          (case map_of (live m) a of
             None \<Rightarrow> Inl invalid_free
           | Some n \<Rightarrow> Inr (m\<lparr>live := filter (\<lambda>(b, k). b \<noteq> a) (live m)\<rparr>)))"

text \<open>
  The physical content of the \<open>n\<close> addresses from \<open>a\<close> on, allocated or not: what an
  instrument inspecting the memory sees, also after a block has been released.
\<close>

definition load_bytes :: "memory \<Rightarrow> addr \<Rightarrow> nat \<Rightarrow> byte list" where
  "load_bytes m a n = map (\<lambda>k. bytes m (a + k)) [0..<n]"

text \<open>Reading \<open>n\<close> bytes through the pointer \<open>p\<close>, one \<^verbatim>\<open>*p++\<close> after the other.\<close>

fun load_range :: "memory \<Rightarrow> ptr \<Rightarrow> nat \<Rightarrow> error + byte list" where
  "load_range m p 0 = Inr []"
| "load_range m p (Suc n) =
     (case load m p of
        Inl e \<Rightarrow> Inl e
      | Inr b \<Rightarrow>
          (case load_range m (ptr_add p 1) n of
             Inl e \<Rightarrow> Inl e
           | Inr bs \<Rightarrow> Inr (b # bs)))"

declare load_range.simps [simp del]

section \<open>The wipe primitive\<close>

text \<open>
  The loop of both \<^verbatim>\<open>secure_wipe\<close> functions:
  \<^verbatim>\<open>while (len--) { *p++ = 0; }\<close> with \<open>len\<close> a \<^verbatim>\<open>size_t\<close>.
\<close>

function wipe_loop :: "memory \<Rightarrow> ptr \<Rightarrow> size_t \<Rightarrow> error + memory" where
  "wipe_loop m p len =
     (if len = 0 then Inr m
      else (case store m p 0 of
              Inl e \<Rightarrow> Inl e
            | Inr m' \<Rightarrow> wipe_loop m' (ptr_add p 1) (len - 1)))"
  by pat_completeness auto
termination
  by (relation "measure (\<lambda>(m, p, len). unat len)") (auto simp: unat_minus_one unat_gt_0)

declare wipe_loop.simps [simp del]

text \<open>\<^verbatim>\<open>SecureBuffer::secure_wipe\<close>: the loop behind a guard on the pointer and the length.\<close>

definition SecureBuffer_secure_wipe :: "memory \<Rightarrow> ptr \<Rightarrow> size_t \<Rightarrow> error + memory" where
  "SecureBuffer_secure_wipe m p len =
     (if p = None \<or> len = 0 then Inr m else wipe_loop m p len)"

text \<open>
  \<^verbatim>\<open>SecureString::secure_wipe\<close>, the branch compiled when \<^verbatim>\<open>__STDC_LIB_EXT1__\<close> is
  not defined: the loop alone, without a guard.
\<close>

definition SecureString_secure_wipe :: "memory \<Rightarrow> ptr \<Rightarrow> size_t \<Rightarrow> error + memory" where
  "SecureString_secure_wipe m p len = wipe_loop m p len"

section \<open>Library operations on byte ranges\<close>

text \<open>\<^verbatim>\<open>std::fill(first, first + n, v)\<close>: one store per element, front to back.\<close>

fun std_fill :: "memory \<Rightarrow> ptr \<Rightarrow> nat \<Rightarrow> byte \<Rightarrow> error + memory" where
  "std_fill m first 0 v = Inr m"
| "std_fill m first (Suc n) v =
     (case store m first v of
        Inl e \<Rightarrow> Inl e
      | Inr m' \<Rightarrow> std_fill m' (ptr_add first 1) n v)"

text \<open>\<^verbatim>\<open>std::copy(str.begin(), str.end(), d)\<close> for the characters \<open>str\<close>.\<close>

fun std_copy :: "memory \<Rightarrow> byte list \<Rightarrow> ptr \<Rightarrow> error + memory" where
  "std_copy m [] d = Inr m"
| "std_copy m (x # xs) d =
     (case store m d x of
        Inl e \<Rightarrow> Inl e
      | Inr m' \<Rightarrow> std_copy m' xs (ptr_add d 1))"

section \<open>std::vector<char>, as far as SecureString uses it\<close>

text \<open>
  A vector is its begin pointer and its size; its block has exactly that many bytes
  (the class resizes a vector once, from empty, and never grows it). A moved-from
  vector is empty with a null begin pointer, as the common standard libraries leave it.
\<close>

record vector =
  vbegin :: ptr
  vsize :: size_t

definition vector_empty :: vector where
  "vector_empty = \<lparr>vbegin = None, vsize = 0\<rparr>"

text \<open>\<^verbatim>\<open>v.resize(n)\<close> on a default-constructed vector.\<close>

definition vector_resize :: "memory \<Rightarrow> size_t \<Rightarrow> error + (vector \<times> memory)" where
  "vector_resize m n =
     (if n = 0 then Inr (vector_empty, m)
      else (case new_array m (unat n) of
              Inl e \<Rightarrow> Inl e
            | Inr (a, m') \<Rightarrow> Inr (\<lparr>vbegin = Some a, vsize = n\<rparr>, m')))"

text \<open>\<^verbatim>\<open>std::move\<close> out of a vector: the new owner's value and what the source keeps.\<close>

definition vector_move :: "vector \<Rightarrow> vector \<times> vector" where
  "vector_move v = (v, vector_empty)"

text \<open>\<^verbatim>\<open>v.clear()\<close>: the size becomes 0; no byte is written (char has no destructor).\<close>

definition vector_clear :: "vector \<Rightarrow> vector" where
  "vector_clear v = v\<lparr>vsize := 0\<rparr>"

text \<open>The vector's destructor, also run on the target of a move assignment.\<close>

definition vector_release :: "memory \<Rightarrow> vector \<Rightarrow> error + memory" where
  "vector_release m v = delete_array m (vbegin v)"

section \<open>Objects\<close>

text \<open>
  \<^verbatim>\<open>SecureBuffer\<close> has the members \<^verbatim>\<open>std::unique_ptr<char[]> data\<close> and
  \<^verbatim>\<open>size_t size\<close>; \<^verbatim>\<open>SecureString\<close> has \<^verbatim>\<open>std::vector<char> data\<close>. Objects have
  identity (\<^verbatim>\<open>this != &other\<close>), so they live in a store indexed by object
  address, and a method takes the addresses of the objects it works on.
  Both classes delete their copy constructor and copy assignment, so there is no copy
  operation to model.
\<close>

record SecureBuffer =
  buf_data :: ptr
  buf_size :: size_t

record SecureString =
  str_data :: vector

record state =
  mem :: memory
  buffers :: "nat \<rightharpoonup> SecureBuffer"
  strings :: "nat \<rightharpoonup> SecureString"

section \<open>SecureBuffer\<close>

text \<open>
  \<^verbatim>\<open>SecureBuffer::SecureBuffer(size_t s)\<close>: \<^verbatim>\<open>data(std::make_unique<char[]>(s)), size(s)\<close>,
  then \<^verbatim>\<open>if (data) std::fill(data.get(), data.get() + size, 0)\<close>.
\<close>

definition SecureBuffer_ctor :: "state \<Rightarrow> nat \<Rightarrow> size_t \<Rightarrow> error + state" where
  "SecureBuffer_ctor st this s =
     (case new_array (mem st) (unat s) of
        Inl e \<Rightarrow> Inl e
      | Inr (a, m1) \<Rightarrow>
          (let b = \<lparr>buf_data = Some a, buf_size = s\<rparr> in
           case (if buf_data b \<noteq> None then std_fill m1 (buf_data b) (unat (buf_size b)) 0
                 else Inr m1) of
             Inl e \<Rightarrow> Inl e
           | Inr m2 \<Rightarrow> Inr (st\<lparr>mem := m2, buffers := (buffers st)(this \<mapsto> b)\<rparr>)))"

text \<open>
  \<^verbatim>\<open>SecureBuffer::SecureBuffer(SecureBuffer&& other)\<close>:
  \<^verbatim>\<open>data(std::move(other.data)), size(std::exchange(other.size, 0))\<close>.
\<close>

definition SecureBuffer_move_ctor :: "state \<Rightarrow> nat \<Rightarrow> nat \<Rightarrow> error + state" where
  "SecureBuffer_move_ctor st this other =
     (case buffers st other of
        None \<Rightarrow> Inl no_object
      | Some ob \<Rightarrow>
          Inr (st\<lparr>buffers := (buffers st)
                 (other \<mapsto> \<lparr>buf_data = None, buf_size = 0\<rparr>,
                  this \<mapsto> \<lparr>buf_data = buf_data ob, buf_size = buf_size ob\<rparr>)\<rparr>))"

text \<open>
  \<^verbatim>\<open>SecureBuffer::operator=(SecureBuffer&& other)\<close>: unless \<^verbatim>\<open>this == &other\<close>,
  \<^verbatim>\<open>secure_wipe(data.get(), size)\<close>, then \<^verbatim>\<open>swap(data, other.data)\<close> and
  \<^verbatim>\<open>swap(size, other.size)\<close>.
\<close>

definition SecureBuffer_move_assign :: "state \<Rightarrow> nat \<Rightarrow> nat \<Rightarrow> error + state" where
  "SecureBuffer_move_assign st this other =
     (if this = other then Inr st
      else (case (buffers st this, buffers st other) of
              (Some tb, Some ob) \<Rightarrow>
                (case SecureBuffer_secure_wipe (mem st) (buf_data tb) (buf_size tb) of
                   Inl e \<Rightarrow> Inl e
                 | Inr m1 \<Rightarrow>
                     Inr (st\<lparr>mem := m1,
                            buffers := (buffers st)
                              (this \<mapsto> \<lparr>buf_data = buf_data ob, buf_size = buf_size ob\<rparr>,
                               other \<mapsto> \<lparr>buf_data = buf_data tb, buf_size = buf_size tb\<rparr>)\<rparr>))
            | _ \<Rightarrow> Inl no_object))"

text \<open>
  \<^verbatim>\<open>SecureBuffer::~SecureBuffer()\<close>: \<^verbatim>\<open>secure_wipe(data.get(), size)\<close>, then the
  destructor of \<^verbatim>\<open>data\<close> runs \<^verbatim>\<open>delete[]\<close>, and the object is gone.
\<close>

definition SecureBuffer_dtor :: "state \<Rightarrow> nat \<Rightarrow> error + state" where
  "SecureBuffer_dtor st this =
     (case buffers st this of
        None \<Rightarrow> Inl no_object
      | Some tb \<Rightarrow>
          (case SecureBuffer_secure_wipe (mem st) (buf_data tb) (buf_size tb) of
             Inl e \<Rightarrow> Inl e
           | Inr m1 \<Rightarrow>
               (case delete_array m1 (buf_data tb) of
                  Inl e \<Rightarrow> Inl e
                | Inr m2 \<Rightarrow> Inr (st\<lparr>mem := m2, buffers := (buffers st)(this := None)\<rparr>))))"

text \<open>\<^verbatim>\<open>data_ptr()\<close> (both overloads) and \<^verbatim>\<open>size_bytes()\<close>.\<close>

definition data_ptr :: "SecureBuffer \<Rightarrow> ptr" where
  "data_ptr b = buf_data b"

definition size_bytes :: "SecureBuffer \<Rightarrow> size_t" where
  "size_bytes b = buf_size b"

section \<open>SecureString\<close>

text \<open>
  \<^verbatim>\<open>SecureString::SecureString(const std::string& str)\<close>:
  \<^verbatim>\<open>data.resize(str.size() + 1)\<close>, \<^verbatim>\<open>std::copy(str.begin(), str.end(), data.begin())\<close>,
  \<^verbatim>\<open>data[str.size()] = '\0'\<close>.
\<close>

definition SecureString_ctor :: "state \<Rightarrow> nat \<Rightarrow> byte list \<Rightarrow> error + state" where
  "SecureString_ctor st this str =
     (let str_size = (of_nat (length str) :: size_t) in
      case vector_resize (mem st) (str_size + 1) of
        Inl e \<Rightarrow> Inl e
      | Inr (d, m1) \<Rightarrow>
          (case std_copy m1 str (vbegin d) of
             Inl e \<Rightarrow> Inl e
           | Inr m2 \<Rightarrow>
               (case store m2 (ptr_add (vbegin d) (unat str_size)) 0 of
                  Inl e \<Rightarrow> Inl e
                | Inr m3 \<Rightarrow>
                    Inr (st\<lparr>mem := m3, strings := (strings st)(this \<mapsto> \<lparr>str_data = d\<rparr>)\<rparr>))))"

text \<open>
  \<^verbatim>\<open>SecureString::SecureString(SecureString&& other)\<close>: \<^verbatim>\<open>data(std::move(other.data))\<close>,
  then \<^verbatim>\<open>other.secure_wipe(other.data.data(), other.data.size())\<close> and
  \<^verbatim>\<open>other.data.clear()\<close>, both on what the move left in \<open>other\<close>.
\<close>

definition SecureString_move_ctor :: "state \<Rightarrow> nat \<Rightarrow> nat \<Rightarrow> error + state" where
  "SecureString_move_ctor st this other =
     (case strings st other of
        None \<Rightarrow> Inl no_object
      | Some os \<Rightarrow>
          (let (d, od) = vector_move (str_data os) in
           case SecureString_secure_wipe (mem st) (vbegin od) (vsize od) of
             Inl e \<Rightarrow> Inl e
           | Inr m1 \<Rightarrow>
               Inr (st\<lparr>mem := m1,
                      strings := (strings st)
                        (other \<mapsto> \<lparr>str_data = vector_clear od\<rparr>,
                         this \<mapsto> \<lparr>str_data = d\<rparr>)\<rparr>)))"

text \<open>
  \<^verbatim>\<open>SecureString::operator=(SecureString&& other)\<close>: unless \<^verbatim>\<open>this == &other\<close>,
  \<^verbatim>\<open>secure_wipe(data.data(), data.size())\<close>; \<^verbatim>\<open>data = std::move(other.data)\<close>, which
  releases the block \<open>data\<close> had; then the wipe and \<^verbatim>\<open>clear()\<close> of \<open>other.data\<close>.
\<close>

definition SecureString_move_assign :: "state \<Rightarrow> nat \<Rightarrow> nat \<Rightarrow> error + state" where
  "SecureString_move_assign st this other =
     (if this = other then Inr st
      else (case (strings st this, strings st other) of
              (Some ts, Some os) \<Rightarrow>
                (case SecureString_secure_wipe (mem st)
                        (vbegin (str_data ts)) (vsize (str_data ts)) of
                   Inl e \<Rightarrow> Inl e
                 | Inr m1 \<Rightarrow>
                     (case vector_release m1 (str_data ts) of
                        Inl e \<Rightarrow> Inl e
                      | Inr m2 \<Rightarrow>
                          (let (d, od) = vector_move (str_data os) in
                           case SecureString_secure_wipe m2 (vbegin od) (vsize od) of
                             Inl e \<Rightarrow> Inl e
                           | Inr m3 \<Rightarrow>
                               Inr (st\<lparr>mem := m3,
                                      strings := (strings st)
                                        (this \<mapsto> \<lparr>str_data = d\<rparr>,
                                         other \<mapsto> \<lparr>str_data = vector_clear od\<rparr>)\<rparr>))))
            | _ \<Rightarrow> Inl no_object))"

text \<open>
  \<^verbatim>\<open>SecureString::~SecureString()\<close>: \<^verbatim>\<open>secure_wipe(data.data(), data.size())\<close>, then
  the destructor of \<^verbatim>\<open>data\<close> releases the block.
\<close>

definition SecureString_dtor :: "state \<Rightarrow> nat \<Rightarrow> error + state" where
  "SecureString_dtor st this =
     (case strings st this of
        None \<Rightarrow> Inl no_object
      | Some ts \<Rightarrow>
          (case SecureString_secure_wipe (mem st)
                  (vbegin (str_data ts)) (vsize (str_data ts)) of
             Inl e \<Rightarrow> Inl e
           | Inr m1 \<Rightarrow>
               (case vector_release m1 (str_data ts) of
                  Inl e \<Rightarrow> Inl e
                | Inr m2 \<Rightarrow> Inr (st\<lparr>mem := m2, strings := (strings st)(this := None)\<rparr>))))"

text \<open>\<^verbatim>\<open>c_str()\<close> returns \<^verbatim>\<open>data.data()\<close>.\<close>

definition c_str :: "SecureString \<Rightarrow> ptr" where
  "c_str s = vbegin (str_data s)"

text \<open>\<^verbatim>\<open>size()\<close> returns \<^verbatim>\<open>data.size() ? data.size() - 1 : 0\<close>.\<close>

definition SecureString_size :: "SecureString \<Rightarrow> size_t" where
  "SecureString_size s =
     (if vsize (str_data s) \<noteq> 0 then vsize (str_data s) - 1 else 0)"

section \<open>Ownership and concrete states\<close>

text \<open>
  A SecureBuffer owns its storage when its pointer is null and its size 0, or its
  pointer is the base of a live block of \<open>size\<close> bytes; likewise a SecureString and
  the block of its vector.
\<close>

definition owns :: "memory \<Rightarrow> ptr \<Rightarrow> size_t \<Rightarrow> bool" where
  "owns m p n =
     (case p of
        None \<Rightarrow> n = 0
      | Some a \<Rightarrow> map_of (live m) a = Some (unat n))"

text \<open>The memory with the \<open>n\<close> bytes behind \<open>p\<close> set to zero and everything else as it was.\<close>

definition wiped :: "memory \<Rightarrow> ptr \<Rightarrow> size_t \<Rightarrow> memory" where
  "wiped m p n =
     (case p of
        None \<Rightarrow> m
      | Some a \<Rightarrow> m\<lparr>bytes := (\<lambda>x. if a \<le> x \<and> x < a + unat n then 0 else bytes m x)\<rparr>)"

text \<open>
  The block of \<open>n\<close> bytes behind \<open>p\<close> and the \<open>k\<close> bytes from address \<open>b\<close> on share no
  address. Two objects that each own their storage are in this relation.
\<close>

definition disjoint_from :: "ptr \<Rightarrow> size_t \<Rightarrow> addr \<Rightarrow> nat \<Rightarrow> bool" where
  "disjoint_from p n b k =
     (case p of
        None \<Rightarrow> True
      | Some a \<Rightarrow> a + unat n \<le> b \<or> b + k \<le> a)"

text \<open>
  What every \<^verbatim>\<open>std::vector\<close> satisfies: a null \<^verbatim>\<open>data()\<close> comes with \<^verbatim>\<open>size()\<close> 0.
  The wipe of SecureString is private, and each of its calls passes the
  \<^verbatim>\<open>data()\<close> and \<^verbatim>\<open>size()\<close> of one vector.
\<close>

definition vector_ok :: "vector \<Rightarrow> bool" where
  "vector_ok v = (case vbegin v of None \<Rightarrow> vsize v = 0 | Some a \<Rightarrow> True)"

text \<open>The caller's \<^verbatim>\<open>*p = v\<close> through a pointer it got from \<^verbatim>\<open>data_ptr()\<close>.\<close>

definition caller_store :: "state \<Rightarrow> ptr \<Rightarrow> byte \<Rightarrow> error + state" where
  "caller_store st p v =
     (case store (mem st) p v of
        Inl e \<Rightarrow> Inl e
      | Inr m \<Rightarrow> Inr (st\<lparr>mem := m\<rparr>))"

text \<open>A heap with room for 64 bytes and nothing allocated, and the state without objects.\<close>

definition mem0 :: memory where
  "mem0 = \<lparr>bytes = (\<lambda>a. 0), live = [], brk = 1, limit = 64\<rparr>"

definition state0 :: state where
  "state0 = \<lparr>mem = mem0, buffers = Map.empty, strings = Map.empty\<rparr>"

text \<open>Running one operation after another; the first error ends the run.\<close>

definition and_then :: "error + state \<Rightarrow> (state \<Rightarrow> error + state) \<Rightarrow> error + state" where
  "and_then r f = (case r of Inl e \<Rightarrow> Inl e | Inr st \<Rightarrow> f st)"

text \<open>
  \<^verbatim>\<open>SecureBuffer b(4); SecureBuffer a(2); SecureString s("A"); SecureString t("B");\<close>
  with \<open>b\<close> and \<open>s\<close> at object address 0, \<open>a\<close> and \<open>t\<close> at object address 1.
\<close>

definition demo_run :: "error + state" where
  "demo_run =
     and_then (and_then (and_then (SecureBuffer_ctor state0 0 4)
       (\<lambda>st. SecureBuffer_ctor st 1 2))
       (\<lambda>st. SecureString_ctor st 0 [0x41]))
       (\<lambda>st. SecureString_ctor st 1 [0x42])"

text \<open>The state that run ends in, written out.\<close>

definition demo_state :: state where
  "demo_state =
     \<lparr>mem = \<lparr>bytes = (\<lambda>a. if a = 7 then 0x41 else if a = 9 then 0x42 else 0),
             live = [(9, 2), (7, 2), (5, 2), (1, 4)], brk = 11, limit = 64\<rparr>,
      buffers = [0 \<mapsto> \<lparr>buf_data = Some 1, buf_size = 4\<rparr>,
                 1 \<mapsto> \<lparr>buf_data = Some 5, buf_size = 2\<rparr>],
      strings = [0 \<mapsto> \<lparr>str_data = \<lparr>vbegin = Some 7, vsize = 2\<rparr>\<rparr>,
                 1 \<mapsto> \<lparr>str_data = \<lparr>vbegin = Some 9, vsize = 2\<rparr>\<rparr>]\<rparr>"

text \<open>
  The same state after the caller has written \<^verbatim>\<open>b.data_ptr()[0] = 0x11\<close> and
  \<^verbatim>\<open>a.data_ptr()[0] = 0x55\<close>: all four objects hold non-zero bytes.
\<close>

definition demo_written :: state where
  "demo_written =
     demo_state\<lparr>mem := (mem demo_state)
       \<lparr>bytes := (\<lambda>x. if x = 1 then 0x11 else if x = 5 then 0x55
                        else if x = 7 then 0x41 else if x = 9 then 0x42 else 0)\<rparr>\<rparr>"

text \<open>
  The same state after \<^verbatim>\<open>SecureBuffer c(std::move(a)); SecureString u(std::move(t));\<close>
  with \<open>c\<close> and \<open>u\<close> at object address 2: \<open>a\<close> and \<open>t\<close> are moved-from.
\<close>

definition demo_moved :: state where
  "demo_moved =
     demo_state\<lparr>buffers := (buffers demo_state)
                   (1 \<mapsto> \<lparr>buf_data = None, buf_size = 0\<rparr>,
                    2 \<mapsto> \<lparr>buf_data = Some 5, buf_size = 2\<rparr>),
                 strings := (strings demo_state)
                   (1 \<mapsto> \<lparr>str_data = vector_empty\<rparr>,
                    2 \<mapsto> \<lparr>str_data = \<lparr>vbegin = Some 9, vsize = 2\<rparr>\<rparr>)\<rparr>"

section \<open>Memory operations in closed form\<close>

lemma wipe_loop_zero: "wipe_loop m p 0 = Inr m"
  by (simp add: wipe_loop.simps)

lemma allocated_bytes_update [simp]: "allocated (m\<lparr>bytes := f\<rparr>) a = allocated m a"
  by (simp add: allocated_def)

lemma allocated_in_block:
  "(b, n) \<in> set (live m) \<Longrightarrow> b \<le> a \<Longrightarrow> a < b + n \<Longrightarrow> allocated m a"
  by (auto simp: allocated_def list_ex_iff)

lemma store_allocated:
  "allocated m a \<Longrightarrow> store m (Some a) v = Inr (m\<lparr>bytes := (bytes m)(a := v)\<rparr>)"
  by (simp add: store_def)

lemma wipe_loop_range:
  "(b, n) \<in> set (live m) \<Longrightarrow> b \<le> a \<Longrightarrow> a + unat len \<le> b + n \<Longrightarrow>
   wipe_loop m (Some a) len =
     Inr (m\<lparr>bytes := (\<lambda>x. if a \<le> x \<and> x < a + unat len then 0 else bytes m x)\<rparr>)"
proof (induction "unat len" arbitrary: len m a)
  case 0
  then have "len = 0" by (simp add: unat_eq_zero)
  moreover have "(\<lambda>x. if a \<le> x \<and> x < a then 0 else bytes m x) = bytes m"
    by (auto simp: fun_eq_iff)
  ultimately show ?case by (simp add: wipe_loop.simps)
next
  case (Suc k)
  then have nz: "len \<noteq> 0" by auto
  have k: "k = unat (len - 1)" using Suc.hyps(2) nz by (simp add: unat_minus_one)
  have w: "allocated m a"
    using Suc.prems Suc.hyps(2) by (intro allocated_in_block[of b n]) auto
  let ?m1 = "m\<lparr>bytes := (bytes m)(a := 0)\<rparr>"
  have "wipe_loop ?m1 (Some (a + 1)) (len - 1) =
     Inr (?m1\<lparr>bytes := (\<lambda>x. if a + 1 \<le> x \<and> x < a + 1 + unat (len - 1) then 0 else bytes ?m1 x)\<rparr>)"
    using Suc.prems Suc.hyps(2) k by (intro Suc.hyps(1)) auto
  moreover have "(\<lambda>x. if a + 1 \<le> x \<and> x < a + 1 + unat (len - 1) then 0 else bytes ?m1 x)
     = (\<lambda>x. if a \<le> x \<and> x < a + unat len then 0 else bytes m x)"
    using k Suc.hyps(2) by (auto simp: fun_eq_iff)
  ultimately show ?case
    using nz w by (subst wipe_loop.simps) (simp add: store_allocated ptr_add_def)
qed

lemma std_fill_range:
  "(b, n) \<in> set (live m) \<Longrightarrow> b \<le> a \<Longrightarrow> a + k \<le> b + n \<Longrightarrow>
   std_fill m (Some a) k v =
     Inr (m\<lparr>bytes := (\<lambda>x. if a \<le> x \<and> x < a + k then v else bytes m x)\<rparr>)"
proof (induction k arbitrary: m a)
  case 0
  have "(\<lambda>x. if a \<le> x \<and> x < a then v else bytes m x) = bytes m"
    by (auto simp: fun_eq_iff)
  then show ?case by simp
next
  case (Suc k)
  have w: "allocated m a"
    using Suc.prems by (intro allocated_in_block[of b n]) auto
  let ?m1 = "m\<lparr>bytes := (bytes m)(a := v)\<rparr>"
  have "std_fill ?m1 (Some (a + 1)) k v =
     Inr (?m1\<lparr>bytes := (\<lambda>x. if a + 1 \<le> x \<and> x < a + 1 + k then v else bytes ?m1 x)\<rparr>)"
    using Suc.prems by (intro Suc.IH) auto
  moreover have "(\<lambda>x. if a + 1 \<le> x \<and> x < a + 1 + k then v else bytes ?m1 x)
     = (\<lambda>x. if a \<le> x \<and> x < a + Suc k then v else bytes m x)"
    by (auto simp: fun_eq_iff)
  ultimately show ?case
    using w by (simp add: store_allocated ptr_add_def)
qed

lemma std_copy_range:
  "(b, n) \<in> set (live m) \<Longrightarrow> b \<le> a \<Longrightarrow> a + length xs \<le> b + n \<Longrightarrow>
   std_copy m xs (Some a) =
     Inr (m\<lparr>bytes := (\<lambda>x. if a \<le> x \<and> x < a + length xs then xs ! (x - a) else bytes m x)\<rparr>)"
proof (induction xs arbitrary: m a)
  case Nil
  have "(\<lambda>x. if a \<le> x \<and> x < a then [] ! (x - a) else bytes m x) = bytes m"
    by (auto simp: fun_eq_iff)
  then show ?case by simp
next
  case (Cons y ys)
  have w: "allocated m a"
    using Cons.prems by (intro allocated_in_block[of b n]) auto
  let ?m1 = "m\<lparr>bytes := (bytes m)(a := y)\<rparr>"
  have "std_copy ?m1 ys (Some (a + 1)) =
     Inr (?m1\<lparr>bytes := (\<lambda>x. if a + 1 \<le> x \<and> x < a + 1 + length ys then ys ! (x - (a + 1)) else bytes ?m1 x)\<rparr>)"
    using Cons.prems by (intro Cons.IH) auto
  moreover have "(\<lambda>x. if a + 1 \<le> x \<and> x < a + 1 + length ys then ys ! (x - (a + 1)) else bytes ?m1 x)
     = (\<lambda>x. if a \<le> x \<and> x < a + length (y # ys) then (y # ys) ! (x - a) else bytes m x)"
    by (auto simp: fun_eq_iff nth_Cons')
  ultimately show ?case
    using w by (simp add: store_allocated ptr_add_def)
qed

lemma new_array_Inr:
  "new_array m n = Inr (a, m') \<Longrightarrow>
   a = brk m \<and>
   m' = m\<lparr>bytes := (\<lambda>x. if a \<le> x \<and> x < a + n then 0 else bytes m x),
          live := (a, n) # live m, brk := a + max 1 n\<rparr>"
  by (auto simp: new_array_def split: if_splits)

lemma new_array_error: "new_array m n = Inl e \<Longrightarrow> e = bad_alloc"
  by (auto simp: new_array_def split: if_splits)

lemma new_array_cases:
  "new_array m n = Inl bad_alloc \<or> (\<exists>a m'. new_array m n = Inr (a, m'))"
  by (simp add: new_array_def)

lemma SecureBuffer_ctor_Inr:
  assumes "new_array (mem st) (unat s) = Inr (a, m1)"
  shows "SecureBuffer_ctor st this s =
           Inr (st\<lparr>mem := m1, buffers := (buffers st)(this \<mapsto> \<lparr>buf_data = Some a, buf_size = s\<rparr>)\<rparr>)"
proof -
  from new_array_Inr [OF assms]
  have m1: "m1 = (mem st)\<lparr>bytes := (\<lambda>x. if a \<le> x \<and> x < a + unat s then 0 else bytes (mem st) x),
          live := (a, unat s) # live (mem st), brk := a + max 1 (unat s)\<rparr>"
    by simp
  then have "(a, unat s) \<in> set (live m1)" by simp
  then have "std_fill m1 (Some a) (unat s) 0 =
     Inr (m1\<lparr>bytes := (\<lambda>x. if a \<le> x \<and> x < a + unat s then 0 else bytes m1 x)\<rparr>)"
    by (rule std_fill_range) simp_all
  moreover have "(\<lambda>x. if a \<le> x \<and> x < a + unat s then 0 else bytes m1 x) = bytes m1"
    by (auto simp: m1 fun_eq_iff)
  ultimately have "std_fill m1 (Some a) (unat s) 0 = Inr m1" by simp
  with assms show ?thesis by (simp add: SecureBuffer_ctor_def)
qed

lemma SecureBuffer_ctor_Inl:
  "new_array (mem st) (unat s) = Inl e \<Longrightarrow> SecureBuffer_ctor st this s = Inl e"
  by (simp add: SecureBuffer_ctor_def)

lemma length_load_bytes [simp]: "length (load_bytes m a n) = n"
  by (simp add: load_bytes_def)

lemma load_bytes_nth: "k < n \<Longrightarrow> load_bytes m a n ! k = bytes m (a + k)"
  by (simp add: load_bytes_def)

lemma load_bytes_Suc: "load_bytes m a (Suc n) = bytes m a # load_bytes m (Suc a) n"
  by (intro nth_equalityI) (auto simp: load_bytes_nth nth_Cons')

lemma load_allocated: "allocated m a \<Longrightarrow> load m (Some a) = Inr (bytes m a)"
  by (simp add: load_def)

lemma load_range_block:
  "(b, n) \<in> set (live m) \<Longrightarrow> b \<le> a \<Longrightarrow> a + k \<le> b + n \<Longrightarrow>
   load_range m (Some a) k = Inr (load_bytes m a k)"
proof (induction k arbitrary: a)
  case 0
  then show ?case by (simp add: load_bytes_def load_range.simps)
next
  case (Suc k)
  have "allocated m a"
    using Suc.prems by (intro allocated_in_block [of b n]) auto
  moreover have "load_range m (Some (Suc a)) k = Inr (load_bytes m (Suc a) k)"
    using Suc.prems by (intro Suc.IH) auto
  ultimately show ?case
    by (simp add: load_allocated ptr_add_def load_bytes_Suc load_range.simps)
qed

text \<open>A wipe of storage that is not allocated, or no longer, fails at its first byte.\<close>

lemma wipe_loop_released:
  "\<not> allocated m a \<Longrightarrow> n \<noteq> 0 \<Longrightarrow> wipe_loop m (Some a) n = Inl invalid_access"
  by (subst wipe_loop.simps) (simp add: store_def)

lemma load_bytes_zero:
  "(\<And>k. k < n \<Longrightarrow> bytes m (a + k) = 0) \<Longrightarrow> load_bytes m a n = replicate n 0"
  by (auto simp: load_bytes_def list_eq_iff_nth_eq)

lemma new_array_zeroed:
  assumes "new_array m n = Inr (a, m')"
  shows "load_range m' (Some a) n = Inr (replicate n 0)"
proof -
  from new_array_Inr [OF assms] have "(a, n) \<in> set (live m')" by simp
  then have "load_range m' (Some a) n = Inr (load_bytes m' a n)"
    by (rule load_range_block) simp_all
  moreover from new_array_Inr [OF assms] have "load_bytes m' a n = replicate n 0"
    by (intro load_bytes_zero) simp
  ultimately show ?thesis by simp
qed

text \<open>
  C4: whenever the allocation succeeds, \<^verbatim>\<open>SecureBuffer(n)\<close> yields an object whose
  \<^verbatim>\<open>size_bytes()\<close> is \<open>n\<close> and whose \<open>n\<close> bytes, read through \<^verbatim>\<open>data_ptr()\<close>, are
  all zero.
\<close>

theorem SecureBuffer_ctor_zero_init:
  assumes "new_array (mem st) (unat n) \<noteq> Inl bad_alloc"
  shows "\<exists>st' b a. SecureBuffer_ctor st this n = Inr st' \<and> buffers st' this = Some b \<and>
           size_bytes b = n \<and> data_ptr b = Some a \<and>
           load_range (mem st') (data_ptr b) (unat n) = Inr (replicate (unat n) 0)"
proof -
  from assms new_array_cases [of "mem st" "unat n"]
  obtain a m1 where a: "new_array (mem st) (unat n) = Inr (a, m1)" by auto
  from new_array_zeroed [OF a] SecureBuffer_ctor_Inr [OF a, of this] show ?thesis
    by (simp add: size_bytes_def data_ptr_def)
qed

text \<open>The scenario \<^verbatim>\<open>SecureBuffer(16)\<close> on the empty heap.\<close>

theorem SecureBuffer_ctor_zero_init_witness:
  "\<exists>st' b a. SecureBuffer_ctor state0 0 16 = Inr st' \<and> buffers st' 0 = Some b \<and>
           size_bytes b = 16 \<and> data_ptr b = Some a \<and>
           load_range (mem st') (data_ptr b) 16 = Inr (replicate 16 0)"
proof -
  have h: "new_array (mem state0) (unat (16 :: size_t)) \<noteq> Inl bad_alloc"
    by (simp add: new_array_def state0_def mem0_def)
  show ?thesis using SecureBuffer_ctor_zero_init [OF h, of 0] by simp
qed

text \<open>
  C8: constructing a SecureBuffer either fails with \<^verbatim>\<open>bad_alloc\<close>, exactly when the
  allocation does, and returns no state and so no object; or it succeeds with an object
  of the requested size whose bytes are all zero. No other error comes out of it.
\<close>

theorem SecureBuffer_ctor_all_or_nothing:
  "(SecureBuffer_ctor st this n = Inl bad_alloc \<and>
      new_array (mem st) (unat n) = Inl bad_alloc) \<or>
   (\<exists>st' a. SecureBuffer_ctor st this n = Inr st' \<and>
      buffers st' this = Some \<lparr>buf_data = Some a, buf_size = n\<rparr> \<and>
      load_range (mem st') (Some a) (unat n) = Inr (replicate (unat n) 0))"
proof (cases "new_array (mem st) (unat n)")
  case (Inl e)
  with new_array_error [OF Inl] SecureBuffer_ctor_Inl [OF Inl, of this]
  show ?thesis by simp
next
  case (Inr r)
  obtain a m1 where r: "r = (a, m1)" by (cases r)
  from Inr r have a: "new_array (mem st) (unat n) = Inr (a, m1)" by simp
  from new_array_zeroed [OF a] SecureBuffer_ctor_Inr [OF a, of this] show ?thesis by simp
qed

text \<open>
  C6: \<^verbatim>\<open>size()\<close> is the storage length minus one for non-empty storage and 0 for
  empty storage; as a number it is the truncated difference, never above the storage
  length, so it never wraps around.
\<close>

theorem SecureString_size_no_underflow:
  "SecureString_size s = (if vsize (str_data s) = 0 then 0 else vsize (str_data s) - 1) \<and>
   unat (SecureString_size s) = unat (vsize (str_data s)) - 1 \<and>
   SecureString_size s \<le> vsize (str_data s) \<and>
   SecureString_size \<lparr>str_data = vector_empty\<rparr> = 0"
proof -
  have "unat (SecureString_size s) = unat (vsize (str_data s)) - 1"
    by (simp add: SecureString_size_def unat_minus_one)
  moreover from this have "SecureString_size s \<le> vsize (str_data s)"
    by (simp add: word_le_nat_alt)
  ultimately show ?thesis
    by (simp add: SecureString_size_def vector_empty_def)
qed

text \<open>
  C7: move-assigning an object to itself returns the state as it was, for both classes:
  no byte is written, no block released, no object changed.
\<close>

theorem self_move_assign_noop:
  "SecureBuffer_move_assign st a a = Inr st \<and> SecureString_move_assign st a a = Inr st"
  by (simp add: SecureBuffer_move_assign_def SecureString_move_assign_def)

lemma size_t_of_length:
  assumes "length (s :: byte list) + 1 < 2 ^ 64"
  shows "unat (of_nat (length s) :: size_t) = length s"
    and "unat ((of_nat (length s) :: size_t) + 1) = length s + 1"
    and "(of_nat (length s) :: size_t) + 1 \<noteq> 0"
proof -
  show a: "unat (of_nat (length s) :: size_t) = length s"
    using assms by (simp add: unat_of_nat)
  show b: "unat ((of_nat (length s) :: size_t) + 1) = length s + 1"
    using assms a by (simp add: unat_word_ariths)
  from b show "(of_nat (length s) :: size_t) + 1 \<noteq> 0"
    by (metis Suc_eq_plus1 nat.distinct(1) unat_0)
qed

lemma SecureString_ctor_Inr:
  assumes len: "length s + 1 < 2 ^ 64"
    and new: "new_array (mem st) (length s + 1) = Inr (a, m1)"
  shows "SecureString_ctor st this s =
           Inr (st\<lparr>mem := m1\<lparr>bytes := (\<lambda>x. if a \<le> x \<and> x < a + length s then s ! (x - a)
                                           else bytes m1 x)\<rparr>,
                   strings := (strings st)
                     (this \<mapsto> \<lparr>str_data = \<lparr>vbegin = Some a, vsize = of_nat (length s) + 1\<rparr>\<rparr>)\<rparr>)"
proof -
  note sz = size_t_of_length [OF len]
  from new_array_Inr [OF new]
  have m1: "m1 = (mem st)\<lparr>bytes := (\<lambda>x. if a \<le> x \<and> x < a + (length s + 1) then 0 else bytes (mem st) x),
          live := (a, length s + 1) # live (mem st), brk := a + max 1 (length s + 1)\<rparr>"
    by simp
  then have blk: "(a, length s + 1) \<in> set (live m1)" by simp
  let ?m2 = "m1\<lparr>bytes := (\<lambda>x. if a \<le> x \<and> x < a + length s then s ! (x - a) else bytes m1 x)\<rparr>"
  have rs: "vector_resize (mem st) (of_nat (length s) + 1) =
      Inr (\<lparr>vbegin = Some a, vsize = of_nat (length s) + 1\<rparr>, m1)"
    using new sz by (simp add: vector_resize_def)
  have cp: "std_copy m1 s (Some a) = Inr ?m2"
    using blk by (rule std_copy_range) simp_all
  have "allocated ?m2 (a + length s)"
    using blk by (simp add: allocated_in_block [of a "length s + 1"])
  then have st: "store ?m2 (Some (a + length s)) 0 = Inr (?m2\<lparr>bytes := (bytes ?m2)(a + length s := 0)\<rparr>)"
    by (rule store_allocated)
  have "(bytes ?m2)(a + length s := 0) = bytes ?m2"
    by (auto simp: m1 fun_eq_iff)
  with st have st': "store ?m2 (Some (a + length s)) 0 = Inr ?m2" by simp
  show ?thesis
    using rs cp st' sz by (simp add: SecureString_ctor_def Let_def ptr_add_def)
qed

text \<open>
  C3: whenever the allocation succeeds, \<^verbatim>\<open>SecureString(s)\<close> owns \<open>length s + 1\<close> bytes,
  reading them through \<^verbatim>\<open>c_str()\<close> yields the bytes of \<open>s\<close> followed by one zero
  byte, and \<^verbatim>\<open>size()\<close> is \<open>length s\<close>; for the empty string that is one byte of
  storage holding the terminator, and size 0. (A \<^verbatim>\<open>std::string\<close> is shorter than
  \<^verbatim>\<open>SIZE_MAX\<close>, so \<open>length s + 1\<close> fits a \<^verbatim>\<open>size_t\<close>.)
\<close>

theorem SecureString_ctor_round_trip:
  assumes "length s + 1 < 2 ^ 64"
    and "new_array (mem st) (length s + 1) \<noteq> Inl bad_alloc"
  shows "\<exists>st' str a. SecureString_ctor st this s = Inr st' \<and> strings st' this = Some str \<and>
           c_str str = Some a \<and>
           load_range (mem st') (c_str str) (length s + 1) = Inr (s @ [0]) \<and>
           unat (vsize (str_data str)) = length s + 1 \<and>
           unat (SecureString_size str) = length s"
proof -
  note sz = size_t_of_length [OF assms(1)]
  from assms(2) new_array_cases [of "mem st" "length s + 1"]
  obtain a m1 where a: "new_array (mem st) (length s + 1) = Inr (a, m1)" by auto
  let ?m2 = "m1\<lparr>bytes := (\<lambda>x. if a \<le> x \<and> x < a + length s then s ! (x - a) else bytes m1 x)\<rparr>"
  from new_array_Inr [OF a] have "bytes m1 (a + length s) = 0" by simp
  then have "load_bytes ?m2 a (length s + 1) = s @ [0]"
    by (intro nth_equalityI) (auto simp: load_bytes_nth nth_append less_Suc_eq)
  moreover from new_array_Inr [OF a] have "(a, length s + 1) \<in> set (live ?m2)" by simp
  then have "load_range ?m2 (Some a) (length s + 1) = Inr (load_bytes ?m2 a (length s + 1))"
    by (rule load_range_block) simp_all
  ultimately have "load_range ?m2 (Some a) (length s + 1) = Inr (s @ [0])" by simp
  with SecureString_ctor_Inr [OF assms(1) a, of this] sz show ?thesis
    by (simp add: c_str_def SecureString_size_def)
qed

text \<open>The empty string: one byte of storage holding the terminator, and size 0.\<close>

theorem SecureString_ctor_round_trip_witness:
  "\<exists>st' str a. SecureString_ctor state0 0 [] = Inr st' \<and> strings st' 0 = Some str \<and>
           c_str str = Some a \<and>
           load_range (mem st') (c_str str) 1 = Inr [0] \<and>
           unat (vsize (str_data str)) = 1 \<and>
           unat (SecureString_size str) = 0"
proof -
  have h1: "length ([] :: byte list) + 1 < 2 ^ 64" by simp
  have h2: "new_array (mem state0) (length ([] :: byte list) + 1) \<noteq> Inl bad_alloc"
    by (simp add: new_array_def state0_def mem0_def)
  show ?thesis using SecureString_ctor_round_trip [OF h1 h2, of 0] by simp
qed


section \<open>Moves, assignments and destructors in closed form\<close>

lemma SecureBuffer_eta [simp]:
  "\<lparr>buf_data = buf_data b, buf_size = buf_size b\<rparr> = (b :: SecureBuffer)"
  by (cases b) simp

lemma SecureString_eta [simp]: "\<lparr>str_data = str_data s\<rparr> = (s :: SecureString)"
  by (cases s) simp

lemma map_of_filter_removed: "map_of (filter (\<lambda>(b, k). b \<noteq> a) xs) a = None"
  by (induction xs) auto

lemma delete_array_owned:
  "map_of (live m) a = Some n \<Longrightarrow>
   delete_array m (Some a) = Inr (m\<lparr>live := filter (\<lambda>(b, k). b \<noteq> a) (live m)\<rparr>)"
  by (simp add: delete_array_def)

lemma wiped_None [simp]: "wiped m None n = m"
  by (simp add: wiped_def)

lemma live_wiped [simp]: "live (wiped m p n) = live m"
  by (simp add: wiped_def split: option.splits)

lemma load_bytes_wiped:
  "load_bytes (wiped m (Some a) n) a (unat n) = replicate (unat n) 0"
  by (intro load_bytes_zero) (simp add: wiped_def)

lemma load_bytes_live_update [simp]:
  "load_bytes (m\<lparr>live := l\<rparr>) a n = load_bytes m a n"
  by (simp add: load_bytes_def)

lemma wipe_loop_owned:
  assumes "owns m p n"
  shows "wipe_loop m p n = Inr (wiped m p n)"
proof (cases p)
  case None
  with assms show ?thesis by (simp add: owns_def wipe_loop_zero)
next
  case (Some a)
  with assms have "(a, unat n) \<in> set (live m)"
    by (simp add: owns_def map_of_SomeD)
  then have "wipe_loop m (Some a) n =
     Inr (m\<lparr>bytes := (\<lambda>x. if a \<le> x \<and> x < a + unat n then 0 else bytes m x)\<rparr>)"
    by (rule wipe_loop_range) simp_all
  with Some show ?thesis by (simp add: wiped_def)
qed

lemma SecureString_secure_wipe_empty [simp]: "SecureString_secure_wipe m p 0 = Inr m"
  by (simp add: SecureString_secure_wipe_def wipe_loop_zero)

lemma SecureString_secure_wipe_owned:
  "owns m p n \<Longrightarrow> SecureString_secure_wipe m p n = Inr (wiped m p n)"
  by (simp add: SecureString_secure_wipe_def wipe_loop_owned)

lemma SecureBuffer_secure_wipe_owned:
  assumes "owns m p n"
  shows "SecureBuffer_secure_wipe m p n = Inr (wiped m p n)"
proof (cases "p = None \<or> n = 0")
  case True
  then have "wipe_loop m p n = Inr m"
    using assms by (auto simp: owns_def wipe_loop_zero)
  with wipe_loop_owned [OF assms] True show ?thesis
    by (simp add: SecureBuffer_secure_wipe_def)
next
  case False
  with wipe_loop_owned [OF assms] show ?thesis
    by (simp add: SecureBuffer_secure_wipe_def)
qed

lemma SecureBuffer_move_assign_owned:
  assumes "this \<noteq> other" "buffers st this = Some tb" "buffers st other = Some ob"
    and "owns (mem st) (buf_data tb) (buf_size tb)"
  shows "SecureBuffer_move_assign st this other =
           Inr (st\<lparr>mem := wiped (mem st) (buf_data tb) (buf_size tb),
                   buffers := (buffers st)(this \<mapsto> ob, other \<mapsto> tb)\<rparr>)"
  using assms by (simp add: SecureBuffer_move_assign_def SecureBuffer_secure_wipe_owned)

lemma SecureBuffer_dtor_owned:
  assumes "buffers st this = Some tb" "buf_data tb = Some a"
    and "owns (mem st) (buf_data tb) (buf_size tb)"
  shows "SecureBuffer_dtor st this =
           Inr (st\<lparr>mem := (wiped (mem st) (Some a) (buf_size tb))
                           \<lparr>live := filter (\<lambda>(b, k). b \<noteq> a) (live (mem st))\<rparr>,
                   buffers := (buffers st)(this := None)\<rparr>)"
proof -
  from assms have "map_of (live (wiped (mem st) (Some a) (buf_size tb))) a = Some (unat (buf_size tb))"
    by (simp add: owns_def)
  from delete_array_owned [OF this] assms show ?thesis
    by (simp add: SecureBuffer_dtor_def SecureBuffer_secure_wipe_owned)
qed

lemma SecureString_move_assign_owned:
  assumes "this \<noteq> other" "strings st this = Some ts" "strings st other = Some os"
    and "vbegin (str_data ts) = Some a"
    and "owns (mem st) (vbegin (str_data ts)) (vsize (str_data ts))"
  shows "SecureString_move_assign st this other =
           Inr (st\<lparr>mem := (wiped (mem st) (Some a) (vsize (str_data ts)))
                           \<lparr>live := filter (\<lambda>(b, k). b \<noteq> a) (live (mem st))\<rparr>,
                   strings := (strings st)
                     (this \<mapsto> os, other \<mapsto> \<lparr>str_data = vector_empty\<rparr>)\<rparr>)"
proof -
  from assms have "map_of (live (wiped (mem st) (Some a) (vsize (str_data ts)))) a
      = Some (unat (vsize (str_data ts)))"
    by (simp add: owns_def)
  from delete_array_owned [OF this] assms show ?thesis
    by (simp add: SecureString_move_assign_def SecureString_secure_wipe_owned
        vector_release_def vector_move_def vector_clear_def vector_empty_def)
qed

lemma SecureString_move_assign_empty_target:
  assumes "this \<noteq> other" "strings st this = Some ts" "strings st other = Some os"
    and "str_data ts = vector_empty"
  shows "SecureString_move_assign st this other =
           Inr (st\<lparr>strings := (strings st)
                     (this \<mapsto> os, other \<mapsto> \<lparr>str_data = vector_empty\<rparr>)\<rparr>)"
  using assms
  by (simp add: SecureString_move_assign_def
        vector_release_def vector_move_def vector_clear_def vector_empty_def
        delete_array_def)

lemma SecureString_dtor_owned:
  assumes "strings st this = Some ts" "vbegin (str_data ts) = Some a"
    and "owns (mem st) (vbegin (str_data ts)) (vsize (str_data ts))"
  shows "SecureString_dtor st this =
           Inr (st\<lparr>mem := (wiped (mem st) (Some a) (vsize (str_data ts)))
                           \<lparr>live := filter (\<lambda>(b, k). b \<noteq> a) (live (mem st))\<rparr>,
                   strings := (strings st)(this := None)\<rparr>)"
proof -
  from assms have "map_of (live (wiped (mem st) (Some a) (vsize (str_data ts)))) a
      = Some (unat (vsize (str_data ts)))"
    by (simp add: owns_def)
  from delete_array_owned [OF this] assms show ?thesis
    by (simp add: SecureString_dtor_def SecureString_secure_wipe_owned vector_release_def)
qed

lemma SecureString_move_ctor_closed:
  assumes "strings st other = Some os"
  shows "SecureString_move_ctor st this other =
           Inr (st\<lparr>strings := (strings st)
                     (other \<mapsto> \<lparr>str_data = vector_empty\<rparr>, this \<mapsto> os)\<rparr>)"
  using assms
  by (simp add: SecureString_move_ctor_def vector_move_def vector_clear_def vector_empty_def)

lemma SecureBuffer_move_ctor_closed:
  assumes "buffers st other = Some ob"
  shows "SecureBuffer_move_ctor st this other =
           Inr (st\<lparr>buffers := (buffers st)
                     (other \<mapsto> \<lparr>buf_data = None, buf_size = 0\<rparr>, this \<mapsto> ob)\<rparr>)"
  using assms by (simp add: SecureBuffer_move_ctor_def)

lemma SecureBuffer_dtor_empty:
  assumes "buffers st this = Some \<lparr>buf_data = None, buf_size = 0\<rparr>"
  shows "SecureBuffer_dtor st this = Inr (st\<lparr>buffers := (buffers st)(this := None)\<rparr>)"
  using assms
  by (simp add: SecureBuffer_dtor_def SecureBuffer_secure_wipe_def delete_array_def)

lemma SecureString_dtor_empty:
  assumes "strings st this = Some \<lparr>str_data = vector_empty\<rparr>"
  shows "SecureString_dtor st this = Inr (st\<lparr>strings := (strings st)(this := None)\<rparr>)"
  using assms
  by (simp add: SecureString_dtor_def vector_release_def delete_array_def vector_empty_def)

section \<open>The concrete states are reachable\<close>

lemma and_then_Inr [simp]: "and_then (Inr st) f = f st"
  by (simp add: and_then_def)

lemma demo_run_state: "demo_run = Inr demo_state"
proof -
  let ?m1 = "\<lparr>bytes = (\<lambda>a. 0), live = [(1, 4)], brk = 5, limit = 64\<rparr> :: memory"
  let ?m2 = "\<lparr>bytes = (\<lambda>a. 0), live = [(5, 2), (1, 4)], brk = 7, limit = 64\<rparr> :: memory"
  let ?m3 = "\<lparr>bytes = (\<lambda>a. 0), live = [(7, 2), (5, 2), (1, 4)], brk = 9, limit = 64\<rparr> :: memory"
  let ?m3' = "\<lparr>bytes = (\<lambda>a. if a = 7 then 0x41 else 0),
               live = [(7, 2), (5, 2), (1, 4)], brk = 9, limit = 64\<rparr> :: memory"
  let ?m4 = "\<lparr>bytes = (\<lambda>a. if a = 7 then 0x41 else 0),
               live = [(9, 2), (7, 2), (5, 2), (1, 4)], brk = 11, limit = 64\<rparr> :: memory"
  let ?b0 = "\<lparr>buf_data = Some 1, buf_size = 4\<rparr>"
  let ?b1 = "\<lparr>buf_data = Some 5, buf_size = 2\<rparr>"
  let ?s0 = "\<lparr>str_data = \<lparr>vbegin = Some 7, vsize = 2\<rparr>\<rparr>"
  let ?st1 = "\<lparr>mem = ?m1, buffers = [0 \<mapsto> ?b0], strings = Map.empty\<rparr>"
  let ?st2 = "\<lparr>mem = ?m2, buffers = [0 \<mapsto> ?b0, 1 \<mapsto> ?b1], strings = Map.empty\<rparr>"
  let ?st3 = "\<lparr>mem = ?m3', buffers = [0 \<mapsto> ?b0, 1 \<mapsto> ?b1], strings = [0 \<mapsto> ?s0]\<rparr>"
  have n1: "new_array (mem state0) (unat (4 :: size_t)) = Inr (1, ?m1)"
    by (simp add: new_array_def state0_def mem0_def fun_eq_iff)
  have c1: "SecureBuffer_ctor state0 0 4 = Inr ?st1"
    using SecureBuffer_ctor_Inr [OF n1, of 0] by (simp add: state0_def)
  have n2: "new_array (mem ?st1) (unat (2 :: size_t)) = Inr (5, ?m2)"
    by (simp add: new_array_def fun_eq_iff)
  have c2: "SecureBuffer_ctor ?st1 1 2 = Inr ?st2"
    using SecureBuffer_ctor_Inr [OF n2, of 1] by simp
  have n3: "new_array (mem ?st2) (length [0x41 :: byte] + 1) = Inr (7, ?m3)"
    by (simp add: new_array_def fun_eq_iff)
  have l3: "length [0x41 :: byte] + 1 < 2 ^ 64" by simp
  have c3: "SecureString_ctor ?st2 0 [0x41] = Inr ?st3"
    unfolding SecureString_ctor_Inr [OF l3 n3, of 0] by (auto simp: fun_eq_iff)
  have n4: "new_array (mem ?st3) (length [0x42 :: byte] + 1) = Inr (9, ?m4)"
    by (simp add: new_array_def fun_eq_iff)
  have l4: "length [0x42 :: byte] + 1 < 2 ^ 64" by simp
  have c4: "SecureString_ctor ?st3 1 [0x42] = Inr demo_state"
    unfolding SecureString_ctor_Inr [OF l4 n4, of 1] by (auto simp: demo_state_def fun_eq_iff)
  show ?thesis
    by (simp only: demo_run_def c1 c2 c3 c4 and_then_Inr)
qed

lemma demo_written_run:
  "and_then (caller_store demo_state (Some 1) 0x11) (\<lambda>st. caller_store st (Some 5) 0x55)
     = Inr demo_written"
proof -
  let ?st1 = "demo_state\<lparr>mem := (mem demo_state)
       \<lparr>bytes := (bytes (mem demo_state))(1 := 0x11)\<rparr>\<rparr>"
  have a1: "allocated (mem demo_state) 1" and a5: "allocated (mem ?st1) 5"
    by (simp_all add: allocated_def demo_state_def)
  have c1: "caller_store demo_state (Some 1) 0x11 = Inr ?st1"
    unfolding caller_store_def store_allocated [OF a1] by simp
  have c2: "caller_store ?st1 (Some 5) 0x55 = Inr demo_written"
    unfolding caller_store_def store_allocated [OF a5]
    by (auto simp: demo_written_def demo_state_def fun_eq_iff)
  show ?thesis
    by (simp only: c1 c2 and_then_Inr)
qed

lemma demo_moved_run:
  "and_then (SecureBuffer_move_ctor demo_state 2 1) (\<lambda>st. SecureString_move_ctor st 2 1)
     = Inr demo_moved"
proof -
  have b: "buffers demo_state 1 = Some \<lparr>buf_data = Some 5, buf_size = 2\<rparr>"
    by (simp add: demo_state_def)
  let ?st1 = "demo_state\<lparr>buffers := (buffers demo_state)
                   (1 \<mapsto> \<lparr>buf_data = None, buf_size = 0\<rparr>,
                    2 \<mapsto> \<lparr>buf_data = Some 5, buf_size = 2\<rparr>)\<rparr>"
  have s: "strings ?st1 1 = Some \<lparr>str_data = \<lparr>vbegin = Some 9, vsize = 2\<rparr>\<rparr>"
    by (simp add: demo_state_def)
  show ?thesis
    unfolding SecureBuffer_move_ctor_closed [OF b] and_then_Inr
      SecureString_move_ctor_closed [OF s]
    by (simp add: demo_moved_def)
qed

section \<open>The moved-from state\<close>

text \<open>
  C10: after \<^verbatim>\<open>SecureString b(std::move(a))\<close> the moved-from \<open>a\<close> has empty storage;
  its \<^verbatim>\<open>c_str()\<close> is the data pointer of that empty vector, the null pointer, which
  cannot be read through, while its \<^verbatim>\<open>size()\<close> is 0.
\<close>

theorem moved_from_SecureString_c_str_null:
  assumes "strings st other = Some os" and "this \<noteq> other"
  shows "\<exists>st' e. SecureString_move_ctor st this other = Inr st' \<and>
           strings st' this = Some os \<and> strings st' other = Some e \<and>
           str_data e = vector_empty \<and> c_str e = None \<and>
           load (mem st') (c_str e) = Inl invalid_access \<and>
           SecureString_size e = 0"
  using assms SecureString_move_ctor_closed [OF assms(1), of this]
  by (simp add: c_str_def SecureString_size_def vector_empty_def load_def)

text \<open>Moving the string "A" of the concrete state into a new object.\<close>

theorem moved_from_SecureString_c_str_null_witness:
  "\<exists>st' e. SecureString_move_ctor demo_state 2 0 = Inr st' \<and>
           strings st' 2 = Some \<lparr>str_data = \<lparr>vbegin = Some 7, vsize = 2\<rparr>\<rparr> \<and>
           strings st' 0 = Some e \<and>
           str_data e = vector_empty \<and> c_str e = None \<and>
           load (mem st') (c_str e) = Inl invalid_access \<and>
           SecureString_size e = 0"
proof -
  have h1: "strings demo_state 0 = Some \<lparr>str_data = \<lparr>vbegin = Some 7, vsize = 2\<rparr>\<rparr>"
    by (simp add: demo_state_def)
  have h2: "(2 :: nat) \<noteq> 0" by simp
  show ?thesis using moved_from_SecureString_c_str_null [OF h1 h2] .
qed

section \<open>Wiping before release\<close>

lemma released_block:
  "map_of (live (m\<lparr>live := filter (\<lambda>(b, k). b \<noteq> a) l\<rparr>)) a = None"
  by (simp add: map_of_filter_removed)

lemma map_of_filter_kept:
  "c \<noteq> a \<Longrightarrow> map_of (filter (\<lambda>(b, k). b \<noteq> a) xs) c = map_of xs c"
  by (induction xs) auto

lemma bytes_wiped_outside:
  "x < a \<or> a + unat n \<le> x \<Longrightarrow> bytes (wiped m (Some a) n) x = bytes m x"
  by (auto simp: wiped_def)

lemma load_bytes_wiped_disjoint:
  "disjoint_from p n b k \<Longrightarrow> load_bytes (wiped m p n) b k = load_bytes m b k"
  by (cases p) (auto simp: disjoint_from_def wiped_def load_bytes_def)

lemma owns_wiped [simp]: "owns (wiped m p n) q k = owns m q k"
  by (simp add: owns_def split: option.splits)

lemma owns_after_release:
  "owns m (Some c) k \<Longrightarrow> c \<noteq> a \<Longrightarrow>
   owns (m\<lparr>live := filter (\<lambda>(b, k). b \<noteq> a) (live m)\<rparr>) (Some c) k"
  by (simp add: owns_def map_of_filter_kept)

lemma SecureBuffer_move_assign_target:
  assumes "this \<noteq> other" "buffers st this = Some tb" "buffers st other = Some ob"
    and "buf_data tb = Some a" "owns (mem st) (buf_data tb) (buf_size tb)"
  shows "\<exists>st'. SecureBuffer_move_assign st this other = Inr st' \<and>
       load_bytes (mem st') a (unat (buf_size tb)) = replicate (unat (buf_size tb)) 0 \<and>
       (\<forall>x. x < a \<or> a + unat (buf_size tb) \<le> x \<longrightarrow> bytes (mem st') x = bytes (mem st) x) \<and>
       live (mem st') = live (mem st) \<and>
       buffers st' this = Some ob \<and> buffers st' other = Some tb"
  using assms
  by (simp add: SecureBuffer_move_assign_owned load_bytes_wiped bytes_wiped_outside)

lemma SecureBuffer_dtor_target:
  assumes "buffers st this = Some tb"
    and "buf_data tb = Some a" "owns (mem st) (buf_data tb) (buf_size tb)"
  shows "\<exists>st'. SecureBuffer_dtor st this = Inr st' \<and>
       load_bytes (mem st') a (unat (buf_size tb)) = replicate (unat (buf_size tb)) 0 \<and>
       (\<forall>x. x < a \<or> a + unat (buf_size tb) \<le> x \<longrightarrow> bytes (mem st') x = bytes (mem st) x) \<and>
       map_of (live (mem st')) a = None \<and> buffers st' this = None"
  using assms
  by (simp add: SecureBuffer_dtor_owned load_bytes_wiped bytes_wiped_outside
      map_of_filter_removed)

lemma SecureString_move_assign_target:
  assumes "this \<noteq> other" "strings st this = Some ts" "strings st other = Some os"
    and "vbegin (str_data ts) = Some sa"
    and "owns (mem st) (vbegin (str_data ts)) (vsize (str_data ts))"
  shows "\<exists>st'. SecureString_move_assign st this other = Inr st' \<and>
       load_bytes (mem st') sa (unat (vsize (str_data ts)))
         = replicate (unat (vsize (str_data ts))) 0 \<and>
       (\<forall>x. x < sa \<or> sa + unat (vsize (str_data ts)) \<le> x \<longrightarrow>
          bytes (mem st') x = bytes (mem st) x) \<and>
       map_of (live (mem st')) sa = None \<and> strings st' this = Some os"
  using assms
  by (simp add: SecureString_move_assign_owned load_bytes_wiped bytes_wiped_outside
      map_of_filter_removed)

lemma SecureString_dtor_target:
  assumes "strings st this = Some ts" "vbegin (str_data ts) = Some sa"
    and "owns (mem st) (vbegin (str_data ts)) (vsize (str_data ts))"
  shows "\<exists>st'. SecureString_dtor st this = Inr st' \<and>
       load_bytes (mem st') sa (unat (vsize (str_data ts)))
         = replicate (unat (vsize (str_data ts))) 0 \<and>
       (\<forall>x. x < sa \<or> sa + unat (vsize (str_data ts)) \<le> x \<longrightarrow>
          bytes (mem st') x = bytes (mem st) x) \<and>
       map_of (live (mem st')) sa = None \<and> strings st' this = None"
  using assms
  by (simp add: SecureString_dtor_owned load_bytes_wiped bytes_wiped_outside
      map_of_filter_removed)

lemma SecureBuffer_move_assign_source:
  assumes "this \<noteq> other" "buffers st this = Some tb" "buffers st other = Some ob"
    and "owns (mem st) (buf_data tb) (buf_size tb)"
    and "buf_data ob = Some sb" "owns (mem st) (buf_data ob) (buf_size ob)"
    and "disjoint_from (buf_data tb) (buf_size tb) sb (unat (buf_size ob))"
  shows "\<exists>st'. SecureBuffer_move_assign st this other = Inr st' \<and>
       buffers st' this = Some ob \<and> owns (mem st') (buf_data ob) (buf_size ob) \<and>
       load_bytes (mem st') sb (unat (buf_size ob)) = load_bytes (mem st) sb (unat (buf_size ob))"
  using assms
  by (simp add: SecureBuffer_move_assign_owned load_bytes_wiped_disjoint)

lemma SecureString_move_assign_source:
  assumes "this \<noteq> other" "strings st this = Some ts" "strings st other = Some os"
    and own_t: "owns (mem st) (vbegin (str_data ts)) (vsize (str_data ts))"
    and src: "vbegin (str_data os) = Some sb"
    and own_s: "owns (mem st) (vbegin (str_data os)) (vsize (str_data os))"
    and base: "vbegin (str_data ts) \<noteq> Some sb"
    and disj: "disjoint_from (vbegin (str_data ts)) (vsize (str_data ts)) sb
                 (unat (vsize (str_data os)))"
  shows "\<exists>st'. SecureString_move_assign st this other = Inr st' \<and>
       strings st' this = Some os \<and>
       owns (mem st') (vbegin (str_data os)) (vsize (str_data os)) \<and>
       load_bytes (mem st') sb (unat (vsize (str_data os)))
         = load_bytes (mem st) sb (unat (vsize (str_data os)))"
proof (cases "vbegin (str_data ts)")
  case None
  with own_t have "str_data ts = vector_empty"
    by (simp add: owns_def vector_empty_def)
  from SecureString_move_assign_empty_target [OF assms(1-3) this] assms(1) own_s
  show ?thesis by simp
next
  case (Some a)
  with base have ne: "sb \<noteq> a" by simp
  from own_s src have "owns (mem st) (Some sb) (vsize (str_data os))" by simp
  then have "owns ((wiped (mem st) (Some a) (vsize (str_data ts)))
                     \<lparr>live := filter (\<lambda>(b, k). b \<noteq> a) (live (mem st))\<rparr>)
               (Some sb) (vsize (str_data os))"
    using ne by (simp add: owns_def map_of_filter_kept)
  moreover from disj Some
  have "load_bytes (wiped (mem st) (Some a) (vsize (str_data ts))) sb (unat (vsize (str_data os)))
          = load_bytes (mem st) sb (unat (vsize (str_data os)))"
    by (intro load_bytes_wiped_disjoint) simp
  ultimately show ?thesis
    using SecureString_move_assign_owned [OF assms(1-3) Some own_t] assms(1) src
    by simp
qed

text \<open>
  C1, as the code has it. Move-assigning into a target that owns storage zeroes every
  byte of that storage first and no byte outside it: SecureBuffer then hands the
  zeroed block to the source object, SecureString releases it. A destructor zeroes
  every byte of the storage, no byte outside it, and then releases the block. All of
  these succeed, and a store to a released block would not. Storage that is moved from
  is not wiped: a move construction writes no byte and the new owner receives the
  storage; after a move assignment the target owns the block the source had, with the
  bytes it had.
\<close>

theorem wipe_before_release:
  "(this \<noteq> other \<and> buffers st this = Some tb \<and> buffers st other = Some ob \<and>
      buf_data tb = Some a \<and> owns (mem st) (buf_data tb) (buf_size tb) \<longrightarrow>
    (\<exists>st'. SecureBuffer_move_assign st this other = Inr st' \<and>
       load_bytes (mem st') a (unat (buf_size tb)) = replicate (unat (buf_size tb)) 0 \<and>
       (\<forall>x. x < a \<or> a + unat (buf_size tb) \<le> x \<longrightarrow> bytes (mem st') x = bytes (mem st) x) \<and>
       live (mem st') = live (mem st) \<and>
       buffers st' this = Some ob \<and> buffers st' other = Some tb)) \<and>
   (buffers st this = Some tb \<and>
      buf_data tb = Some a \<and> owns (mem st) (buf_data tb) (buf_size tb) \<longrightarrow>
    (\<exists>st'. SecureBuffer_dtor st this = Inr st' \<and>
       load_bytes (mem st') a (unat (buf_size tb)) = replicate (unat (buf_size tb)) 0 \<and>
       (\<forall>x. x < a \<or> a + unat (buf_size tb) \<le> x \<longrightarrow> bytes (mem st') x = bytes (mem st) x) \<and>
       map_of (live (mem st')) a = None \<and> buffers st' this = None)) \<and>
   (this \<noteq> other \<and> strings st this = Some ts \<and> strings st other = Some os \<and>
      vbegin (str_data ts) = Some sa \<and>
      owns (mem st) (vbegin (str_data ts)) (vsize (str_data ts)) \<longrightarrow>
    (\<exists>st'. SecureString_move_assign st this other = Inr st' \<and>
       load_bytes (mem st') sa (unat (vsize (str_data ts)))
         = replicate (unat (vsize (str_data ts))) 0 \<and>
       (\<forall>x. x < sa \<or> sa + unat (vsize (str_data ts)) \<le> x \<longrightarrow>
          bytes (mem st') x = bytes (mem st) x) \<and>
       map_of (live (mem st')) sa = None \<and> strings st' this = Some os)) \<and>
   (strings st this = Some ts \<and> vbegin (str_data ts) = Some sa \<and>
      owns (mem st) (vbegin (str_data ts)) (vsize (str_data ts)) \<longrightarrow>
    (\<exists>st'. SecureString_dtor st this = Inr st' \<and>
       load_bytes (mem st') sa (unat (vsize (str_data ts)))
         = replicate (unat (vsize (str_data ts))) 0 \<and>
       (\<forall>x. x < sa \<or> sa + unat (vsize (str_data ts)) \<le> x \<longrightarrow>
          bytes (mem st') x = bytes (mem st) x) \<and>
       map_of (live (mem st')) sa = None \<and> strings st' this = None)) \<and>
   (buffers st other = Some ob \<longrightarrow>
    (\<exists>st'. SecureBuffer_move_ctor st new other = Inr st' \<and>
       mem st' = mem st \<and> buffers st' new = Some ob)) \<and>
   (strings st other = Some os \<longrightarrow>
    (\<exists>st'. SecureString_move_ctor st new other = Inr st' \<and>
       mem st' = mem st \<and> strings st' new = Some os)) \<and>
   (this \<noteq> other \<and> buffers st this = Some tb \<and> buffers st other = Some ob \<and>
      owns (mem st) (buf_data tb) (buf_size tb) \<and>
      buf_data ob = Some sb \<and> owns (mem st) (buf_data ob) (buf_size ob) \<and>
      disjoint_from (buf_data tb) (buf_size tb) sb (unat (buf_size ob)) \<longrightarrow>
    (\<exists>st'. SecureBuffer_move_assign st this other = Inr st' \<and>
       buffers st' this = Some ob \<and> owns (mem st') (buf_data ob) (buf_size ob) \<and>
       load_bytes (mem st') sb (unat (buf_size ob))
         = load_bytes (mem st) sb (unat (buf_size ob)))) \<and>
   (this \<noteq> other \<and> strings st this = Some ts \<and> strings st other = Some os \<and>
      owns (mem st) (vbegin (str_data ts)) (vsize (str_data ts)) \<and>
      vbegin (str_data os) = Some ssb \<and>
      owns (mem st) (vbegin (str_data os)) (vsize (str_data os)) \<and>
      vbegin (str_data ts) \<noteq> Some ssb \<and>
      disjoint_from (vbegin (str_data ts)) (vsize (str_data ts)) ssb
        (unat (vsize (str_data os))) \<longrightarrow>
    (\<exists>st'. SecureString_move_assign st this other = Inr st' \<and>
       strings st' this = Some os \<and>
       owns (mem st') (vbegin (str_data os)) (vsize (str_data os)) \<and>
       load_bytes (mem st') ssb (unat (vsize (str_data os)))
         = load_bytes (mem st) ssb (unat (vsize (str_data os)))))"
proof (intro conjI impI; (elim conjE)?)
  assume "this \<noteq> other" "buffers st this = Some tb" "buffers st other = Some ob"
    "buf_data tb = Some a" "owns (mem st) (buf_data tb) (buf_size tb)"
  then show "\<exists>st'. SecureBuffer_move_assign st this other = Inr st' \<and>
       load_bytes (mem st') a (unat (buf_size tb)) = replicate (unat (buf_size tb)) 0 \<and>
       (\<forall>x. x < a \<or> a + unat (buf_size tb) \<le> x \<longrightarrow> bytes (mem st') x = bytes (mem st) x) \<and>
       live (mem st') = live (mem st) \<and>
       buffers st' this = Some ob \<and> buffers st' other = Some tb"
    by (rule SecureBuffer_move_assign_target)
next
  assume "buffers st this = Some tb" "buf_data tb = Some a"
    "owns (mem st) (buf_data tb) (buf_size tb)"
  then show "\<exists>st'. SecureBuffer_dtor st this = Inr st' \<and>
       load_bytes (mem st') a (unat (buf_size tb)) = replicate (unat (buf_size tb)) 0 \<and>
       (\<forall>x. x < a \<or> a + unat (buf_size tb) \<le> x \<longrightarrow> bytes (mem st') x = bytes (mem st) x) \<and>
       map_of (live (mem st')) a = None \<and> buffers st' this = None"
    by (rule SecureBuffer_dtor_target)
next
  assume "this \<noteq> other" "strings st this = Some ts" "strings st other = Some os"
    "vbegin (str_data ts) = Some sa" "owns (mem st) (vbegin (str_data ts)) (vsize (str_data ts))"
  then show "\<exists>st'. SecureString_move_assign st this other = Inr st' \<and>
       load_bytes (mem st') sa (unat (vsize (str_data ts)))
         = replicate (unat (vsize (str_data ts))) 0 \<and>
       (\<forall>x. x < sa \<or> sa + unat (vsize (str_data ts)) \<le> x \<longrightarrow>
          bytes (mem st') x = bytes (mem st) x) \<and>
       map_of (live (mem st')) sa = None \<and> strings st' this = Some os"
    by (rule SecureString_move_assign_target)
next
  assume "strings st this = Some ts" "vbegin (str_data ts) = Some sa"
    "owns (mem st) (vbegin (str_data ts)) (vsize (str_data ts))"
  then show "\<exists>st'. SecureString_dtor st this = Inr st' \<and>
       load_bytes (mem st') sa (unat (vsize (str_data ts)))
         = replicate (unat (vsize (str_data ts))) 0 \<and>
       (\<forall>x. x < sa \<or> sa + unat (vsize (str_data ts)) \<le> x \<longrightarrow>
          bytes (mem st') x = bytes (mem st) x) \<and>
       map_of (live (mem st')) sa = None \<and> strings st' this = None"
    by (rule SecureString_dtor_target)
next
  assume "buffers st other = Some ob"
  then show "\<exists>st'. SecureBuffer_move_ctor st new other = Inr st' \<and>
       mem st' = mem st \<and> buffers st' new = Some ob"
    by (simp add: SecureBuffer_move_ctor_closed)
next
  assume "strings st other = Some os"
  then show "\<exists>st'. SecureString_move_ctor st new other = Inr st' \<and>
       mem st' = mem st \<and> strings st' new = Some os"
    by (simp add: SecureString_move_ctor_closed)
next
  assume "this \<noteq> other" "buffers st this = Some tb" "buffers st other = Some ob"
    "owns (mem st) (buf_data tb) (buf_size tb)"
    "buf_data ob = Some sb" "owns (mem st) (buf_data ob) (buf_size ob)"
    "disjoint_from (buf_data tb) (buf_size tb) sb (unat (buf_size ob))"
  then show "\<exists>st'. SecureBuffer_move_assign st this other = Inr st' \<and>
       buffers st' this = Some ob \<and> owns (mem st') (buf_data ob) (buf_size ob) \<and>
       load_bytes (mem st') sb (unat (buf_size ob))
         = load_bytes (mem st) sb (unat (buf_size ob))"
    by (rule SecureBuffer_move_assign_source)
next
  assume "this \<noteq> other" "strings st this = Some ts" "strings st other = Some os"
    "owns (mem st) (vbegin (str_data ts)) (vsize (str_data ts))"
    "vbegin (str_data os) = Some ssb"
    "owns (mem st) (vbegin (str_data os)) (vsize (str_data os))"
    "vbegin (str_data ts) \<noteq> Some ssb"
    "disjoint_from (vbegin (str_data ts)) (vsize (str_data ts)) ssb
        (unat (vsize (str_data os)))"
  then show "\<exists>st'. SecureString_move_assign st this other = Inr st' \<and>
       strings st' this = Some os \<and>
       owns (mem st') (vbegin (str_data os)) (vsize (str_data os)) \<and>
       load_bytes (mem st') ssb (unat (vsize (str_data os)))
         = load_bytes (mem st) ssb (unat (vsize (str_data os)))"
    by (rule SecureString_move_assign_source)
qed

text \<open>
  On the concrete state with non-zero bytes in every object: \<^verbatim>\<open>b = std::move(a)\<close>,
  the destruction of \<open>b\<close>, \<^verbatim>\<open>s = std::move(t)\<close>, the destruction of \<open>s\<close>, and the
  move constructions of new objects from \<open>a\<close> and from \<open>t\<close>. Before, the block of \<open>b\<close>
  reads 11 00 00 00 and the block of \<open>s\<close> reads 41 00; the blocks of \<open>a\<close> and \<open>t\<close> read
  55 00 and 42 00 before and after.
\<close>

theorem wipe_before_release_witness:
  "load_bytes (mem demo_written) 1 4 = [0x11, 0, 0, 0] \<and>
   load_bytes (mem demo_written) 7 2 = [0x41, 0] \<and>
   (\<exists>st'. SecureBuffer_move_assign demo_written 0 1 = Inr st' \<and>
       load_bytes (mem st') 1 4 = replicate 4 0 \<and>
       (\<forall>x. x < 1 \<or> 1 + 4 \<le> x \<longrightarrow> bytes (mem st') x = bytes (mem demo_written) x) \<and>
       live (mem st') = live (mem demo_written) \<and>
       buffers st' 0 = Some \<lparr>buf_data = Some 5, buf_size = 2\<rparr> \<and>
       buffers st' 1 = Some \<lparr>buf_data = Some 1, buf_size = 4\<rparr>) \<and>
   (\<exists>st'. SecureBuffer_dtor demo_written 0 = Inr st' \<and>
       load_bytes (mem st') 1 4 = replicate 4 0 \<and>
       (\<forall>x. x < 1 \<or> 1 + 4 \<le> x \<longrightarrow> bytes (mem st') x = bytes (mem demo_written) x) \<and>
       map_of (live (mem st')) 1 = None \<and> buffers st' 0 = None) \<and>
   (\<exists>st'. SecureString_move_assign demo_written 0 1 = Inr st' \<and>
       load_bytes (mem st') 7 2 = replicate 2 0 \<and>
       (\<forall>x. x < 7 \<or> 7 + 2 \<le> x \<longrightarrow> bytes (mem st') x = bytes (mem demo_written) x) \<and>
       map_of (live (mem st')) 7 = None \<and>
       strings st' 0 = Some \<lparr>str_data = \<lparr>vbegin = Some 9, vsize = 2\<rparr>\<rparr>) \<and>
   (\<exists>st'. SecureString_dtor demo_written 0 = Inr st' \<and>
       load_bytes (mem st') 7 2 = replicate 2 0 \<and>
       (\<forall>x. x < 7 \<or> 7 + 2 \<le> x \<longrightarrow> bytes (mem st') x = bytes (mem demo_written) x) \<and>
       map_of (live (mem st')) 7 = None \<and> strings st' 0 = None) \<and>
   (\<exists>st'. SecureBuffer_move_ctor demo_written 2 1 = Inr st' \<and>
       mem st' = mem demo_written \<and>
       buffers st' 2 = Some \<lparr>buf_data = Some 5, buf_size = 2\<rparr>) \<and>
   (\<exists>st'. SecureString_move_ctor demo_written 2 1 = Inr st' \<and>
       mem st' = mem demo_written \<and>
       strings st' 2 = Some \<lparr>str_data = \<lparr>vbegin = Some 9, vsize = 2\<rparr>\<rparr>) \<and>
   (\<exists>st'. SecureBuffer_move_assign demo_written 0 1 = Inr st' \<and>
       buffers st' 0 = Some \<lparr>buf_data = Some 5, buf_size = 2\<rparr> \<and>
       owns (mem st') (Some 5) 2 \<and>
       load_bytes (mem st') 5 2 = [0x55, 0]) \<and>
   (\<exists>st'. SecureString_move_assign demo_written 0 1 = Inr st' \<and>
       strings st' 0 = Some \<lparr>str_data = \<lparr>vbegin = Some 9, vsize = 2\<rparr>\<rparr> \<and>
       owns (mem st') (Some 9) 2 \<and>
       load_bytes (mem st') 9 2 = [0x42, 0])"
proof -
  have h: "(0 :: nat) \<noteq> 1"
    "buffers demo_written 0 = Some \<lparr>buf_data = Some 1, buf_size = 4\<rparr>"
    "buffers demo_written 1 = Some \<lparr>buf_data = Some 5, buf_size = 2\<rparr>"
    "owns (mem demo_written) (Some 1) 4"
    "owns (mem demo_written) (Some 5) 2"
    "disjoint_from (Some 1) 4 5 2"
    "strings demo_written 0 = Some \<lparr>str_data = \<lparr>vbegin = Some 7, vsize = 2\<rparr>\<rparr>"
    "strings demo_written 1 = Some \<lparr>str_data = \<lparr>vbegin = Some 9, vsize = 2\<rparr>\<rparr>"
    "owns (mem demo_written) (Some 7) 2"
    "owns (mem demo_written) (Some 9) 2"
    "disjoint_from (Some 7) 2 9 2"
    by (simp_all add: demo_written_def demo_state_def owns_def disjoint_from_def)
  have v: "load_bytes (mem demo_written) 1 4 = [0x11, 0, 0, 0]"
    "load_bytes (mem demo_written) 7 2 = [0x41, 0]"
    "load_bytes (mem demo_written) 5 2 = [0x55, 0]"
    "load_bytes (mem demo_written) 9 2 = [0x42, 0]"
    by (simp_all add: load_bytes_def demo_written_def demo_state_def
        numeral_2_eq_2 numeral_eq_Suc)
  show ?thesis
    using h v wipe_before_release [where st = demo_written and this = 0 and other = 1
        and new = 2
        and tb = "\<lparr>buf_data = Some 1, buf_size = 4\<rparr>"
        and ob = "\<lparr>buf_data = Some 5, buf_size = 2\<rparr>" and a = 1 and sb = 5
        and ts = "\<lparr>str_data = \<lparr>vbegin = Some 7, vsize = 2\<rparr>\<rparr>"
        and os = "\<lparr>str_data = \<lparr>vbegin = Some 9, vsize = 2\<rparr>\<rparr>" and sa = 7 and ssb = 9]
    by simp
qed

text \<open>
  C1 as stated fails for storage that is moved from: after
  \<^verbatim>\<open>SecureString u(std::move(s))\<close> the object \<open>s\<close> has given up its storage, and
  the two bytes of that storage still read "A" and the terminator, not zeros.
\<close>

theorem moved_from_storage_not_wiped_counterexample:
  "\<not> isl (SecureString_move_ctor demo_state 2 0) \<and>
   strings (projr (SecureString_move_ctor demo_state 2 0)) 0
     = Some \<lparr>str_data = \<lparr>vbegin = None, vsize = 0\<rparr>\<rparr> \<and>
   strings (projr (SecureString_move_ctor demo_state 2 0)) 2
     = Some \<lparr>str_data = \<lparr>vbegin = Some 7, vsize = 2\<rparr>\<rparr> \<and>
   load_bytes (mem (projr (SecureString_move_ctor demo_state 2 0))) 7 2 = [0x41, 0] \<and>
   load_bytes (mem (projr (SecureString_move_ctor demo_state 2 0))) 7 2 \<noteq> [0, 0]"
proof -
  have h: "strings demo_state 0 = Some \<lparr>str_data = \<lparr>vbegin = Some 7, vsize = 2\<rparr>\<rparr>"
    by (simp add: demo_state_def)
  have "load_bytes (mem demo_state) 7 2 = [0x41, 0]"
    by (simp add: load_bytes_def demo_state_def numeral_2_eq_2)
  then show ?thesis
    by (simp add: SecureString_move_ctor_closed [OF h] vector_empty_def)
qed

section \<open>What a move leaves in its source\<close>

lemma SecureString_move_assign_source_empty:
  assumes "this \<noteq> other" "strings st this = Some ts" "strings st other = Some os"
    and "owns (mem st) (vbegin (str_data ts)) (vsize (str_data ts))"
  shows "\<exists>st'. SecureString_move_assign st this other = Inr st' \<and>
           strings st' this = Some os \<and>
           strings st' other = Some \<lparr>str_data = vector_empty\<rparr>"
proof (cases "vbegin (str_data ts)")
  case None
  with assms(4) have "str_data ts = vector_empty"
    by (simp add: owns_def vector_empty_def)
  from SecureString_move_assign_empty_target [OF assms(1-3) this] assms(1)
  show ?thesis by simp
next
  case (Some a)
  from SecureString_move_assign_owned [OF assms(1-3) Some assms(4)] assms(1)
  show ?thesis by simp
qed

text \<open>
  C2, as the code has it. After a move construction (either class) and after a
  SecureString move assignment, the source has size 0 and a null pointer, and the
  target has what the source had. Destroying an object in that empty state succeeds
  and changes nothing but the object's disappearance; a further move construction from
  it changes no memory and leaves it empty. A SecureBuffer move assignment swaps: the
  source ends up with the pointer and size the target had.
\<close>

theorem move_empties_source:
  "(this \<noteq> other \<and> buffers st other = Some ob \<longrightarrow>
    (\<exists>st' e. SecureBuffer_move_ctor st this other = Inr st' \<and> mem st' = mem st \<and>
       buffers st' this = Some ob \<and> buffers st' other = Some e \<and>
       size_bytes e = 0 \<and> data_ptr e = None)) \<and>
   (this \<noteq> other \<and> strings st other = Some os \<longrightarrow>
    (\<exists>st' e. SecureString_move_ctor st this other = Inr st' \<and> mem st' = mem st \<and>
       strings st' this = Some os \<and> strings st' other = Some e \<and>
       SecureString_size e = 0 \<and> str_data e = vector_empty)) \<and>
   (this \<noteq> other \<and> strings st this = Some ts \<and> strings st other = Some os \<and>
      owns (mem st) (vbegin (str_data ts)) (vsize (str_data ts)) \<longrightarrow>
    (\<exists>st' e. SecureString_move_assign st this other = Inr st' \<and>
       strings st' this = Some os \<and> strings st' other = Some e \<and>
       SecureString_size e = 0 \<and> str_data e = vector_empty)) \<and>
   (buffers st other = Some eb \<and> size_bytes eb = 0 \<and> data_ptr eb = None \<longrightarrow>
    SecureBuffer_dtor st other = Inr (st\<lparr>buffers := (buffers st)(other := None)\<rparr>)) \<and>
   (strings st other = Some es \<and> str_data es = vector_empty \<longrightarrow>
    SecureString_dtor st other = Inr (st\<lparr>strings := (strings st)(other := None)\<rparr>)) \<and>
   (this \<noteq> other \<and> buffers st this = Some tb \<and> buffers st other = Some ob \<and>
      owns (mem st) (buf_data tb) (buf_size tb) \<longrightarrow>
    (\<exists>st'. SecureBuffer_move_assign st this other = Inr st' \<and>
       buffers st' this = Some ob \<and> buffers st' other = Some tb \<and>
       size_bytes tb = buf_size tb \<and> data_ptr tb = buf_data tb))"
proof (intro conjI impI; (elim conjE)?)
  assume "this \<noteq> other" "buffers st other = Some ob"
  then show "\<exists>st' e. SecureBuffer_move_ctor st this other = Inr st' \<and> mem st' = mem st \<and>
       buffers st' this = Some ob \<and> buffers st' other = Some e \<and>
       size_bytes e = 0 \<and> data_ptr e = None"
    by (simp add: SecureBuffer_move_ctor_closed size_bytes_def data_ptr_def)
next
  assume "this \<noteq> other" "strings st other = Some os"
  then show "\<exists>st' e. SecureString_move_ctor st this other = Inr st' \<and> mem st' = mem st \<and>
       strings st' this = Some os \<and> strings st' other = Some e \<and>
       SecureString_size e = 0 \<and> str_data e = vector_empty"
    by (simp add: SecureString_move_ctor_closed SecureString_size_def vector_empty_def)
next
  assume "this \<noteq> other" "strings st this = Some ts" "strings st other = Some os"
    "owns (mem st) (vbegin (str_data ts)) (vsize (str_data ts))"
  from SecureString_move_assign_source_empty [OF this]
  obtain st' where "SecureString_move_assign st this other = Inr st'"
    "strings st' this = Some os" "strings st' other = Some \<lparr>str_data = vector_empty\<rparr>"
    by blast
  moreover have "SecureString_size \<lparr>str_data = vector_empty\<rparr> = 0"
    by (simp add: SecureString_size_def vector_empty_def)
  ultimately show "\<exists>st' e. SecureString_move_assign st this other = Inr st' \<and>
       strings st' this = Some os \<and> strings st' other = Some e \<and>
       SecureString_size e = 0 \<and> str_data e = vector_empty"
    by simp
next
  assume "buffers st other = Some eb" "size_bytes eb = 0" "data_ptr eb = None"
  then have "buffers st other = Some \<lparr>buf_data = None, buf_size = 0\<rparr>"
    by (cases eb) (simp add: size_bytes_def data_ptr_def)
  then show "SecureBuffer_dtor st other = Inr (st\<lparr>buffers := (buffers st)(other := None)\<rparr>)"
    by (rule SecureBuffer_dtor_empty)
next
  assume "strings st other = Some es" "str_data es = vector_empty"
  then have "strings st other = Some \<lparr>str_data = vector_empty\<rparr>"
    by (cases es) simp
  then show "SecureString_dtor st other = Inr (st\<lparr>strings := (strings st)(other := None)\<rparr>)"
    by (rule SecureString_dtor_empty)
next
  assume "this \<noteq> other" "buffers st this = Some tb" "buffers st other = Some ob"
    "owns (mem st) (buf_data tb) (buf_size tb)"
  then show "\<exists>st'. SecureBuffer_move_assign st this other = Inr st' \<and>
       buffers st' this = Some ob \<and> buffers st' other = Some tb \<and>
       size_bytes tb = buf_size tb \<and> data_ptr tb = buf_data tb"
    by (simp add: SecureBuffer_move_assign_owned size_bytes_def data_ptr_def)
qed

text \<open>
  First the moves out of \<open>a\<close> and \<open>t\<close> (object 1 of either class) in the concrete
  state; then, on the state those moves end in, further moves out of the moved-from
  objects and their destruction.
\<close>

theorem move_empties_source_witness:
  "(\<exists>st' e. SecureBuffer_move_ctor demo_state 2 1 = Inr st' \<and> mem st' = mem demo_state \<and>
       buffers st' 2 = Some \<lparr>buf_data = Some 5, buf_size = 2\<rparr> \<and> buffers st' 1 = Some e \<and>
       size_bytes e = 0 \<and> data_ptr e = None) \<and>
   (\<exists>st' e. SecureString_move_ctor demo_state 2 1 = Inr st' \<and> mem st' = mem demo_state \<and>
       strings st' 2 = Some \<lparr>str_data = \<lparr>vbegin = Some 9, vsize = 2\<rparr>\<rparr> \<and>
       strings st' 1 = Some e \<and>
       SecureString_size e = 0 \<and> str_data e = vector_empty) \<and>
   (\<exists>st' e. SecureBuffer_move_ctor demo_moved 3 1 = Inr st' \<and> mem st' = mem demo_moved \<and>
       buffers st' 3 = Some \<lparr>buf_data = None, buf_size = 0\<rparr> \<and> buffers st' 1 = Some e \<and>
       size_bytes e = 0 \<and> data_ptr e = None) \<and>
   (\<exists>st' e. SecureString_move_ctor demo_moved 3 1 = Inr st' \<and> mem st' = mem demo_moved \<and>
       strings st' 3 = Some \<lparr>str_data = vector_empty\<rparr> \<and> strings st' 1 = Some e \<and>
       SecureString_size e = 0 \<and> str_data e = vector_empty) \<and>
   (\<exists>st' e. SecureString_move_assign demo_moved 0 1 = Inr st' \<and>
       strings st' 0 = Some \<lparr>str_data = vector_empty\<rparr> \<and> strings st' 1 = Some e \<and>
       SecureString_size e = 0 \<and> str_data e = vector_empty) \<and>
   SecureBuffer_dtor demo_moved 1
     = Inr (demo_moved\<lparr>buffers := (buffers demo_moved)(1 := None)\<rparr>) \<and>
   SecureString_dtor demo_moved 1
     = Inr (demo_moved\<lparr>strings := (strings demo_moved)(1 := None)\<rparr>) \<and>
   (\<exists>st'. SecureBuffer_move_assign demo_moved 0 1 = Inr st' \<and>
       buffers st' 0 = Some \<lparr>buf_data = None, buf_size = 0\<rparr> \<and>
       buffers st' 1 = Some \<lparr>buf_data = Some 1, buf_size = 4\<rparr>)"
proof -
  have h: "(3 :: nat) \<noteq> 1" "(0 :: nat) \<noteq> 1"
    "buffers demo_moved 1 = Some \<lparr>buf_data = None, buf_size = 0\<rparr>"
    "buffers demo_moved 0 = Some \<lparr>buf_data = Some 1, buf_size = 4\<rparr>"
    "strings demo_moved 1 = Some \<lparr>str_data = vector_empty\<rparr>"
    "strings demo_moved 0 = Some \<lparr>str_data = \<lparr>vbegin = Some 7, vsize = 2\<rparr>\<rparr>"
    "owns (mem demo_moved) (Some 7) 2"
    "owns (mem demo_moved) (Some 1) 4"
    by (simp_all add: demo_moved_def demo_state_def owns_def)
  have h0: "(2 :: nat) \<noteq> 1"
    "buffers demo_state 1 = Some \<lparr>buf_data = Some 5, buf_size = 2\<rparr>"
    "strings demo_state 1 = Some \<lparr>str_data = \<lparr>vbegin = Some 9, vsize = 2\<rparr>\<rparr>"
    by (simp_all add: demo_state_def)
  note t0 = move_empties_source [where st = demo_state and this = 2 and other = 1
        and ob = "\<lparr>buf_data = Some 5, buf_size = 2\<rparr>"
        and os = "\<lparr>str_data = \<lparr>vbegin = Some 9, vsize = 2\<rparr>\<rparr>"]
  have e: "size_bytes \<lparr>buf_data = None, buf_size = 0\<rparr> = 0"
    "data_ptr \<lparr>buf_data = None, buf_size = 0\<rparr> = None"
    by (simp_all add: size_bytes_def data_ptr_def)
  note t1 = move_empties_source [where st = demo_moved and this = 3 and other = 1
        and ob = "\<lparr>buf_data = None, buf_size = 0\<rparr>"
        and os = "\<lparr>str_data = vector_empty\<rparr>"
        and ts = "\<lparr>str_data = \<lparr>vbegin = Some 7, vsize = 2\<rparr>\<rparr>"
        and tb = "\<lparr>buf_data = Some 1, buf_size = 4\<rparr>"
        and eb = "\<lparr>buf_data = None, buf_size = 0\<rparr>"
        and es = "\<lparr>str_data = vector_empty\<rparr>"]
  note t2 = move_empties_source [where st = demo_moved and this = 0 and other = 1
        and ob = "\<lparr>buf_data = None, buf_size = 0\<rparr>"
        and os = "\<lparr>str_data = vector_empty\<rparr>"
        and ts = "\<lparr>str_data = \<lparr>vbegin = Some 7, vsize = 2\<rparr>\<rparr>"
        and tb = "\<lparr>buf_data = Some 1, buf_size = 4\<rparr>"
        and eb = "\<lparr>buf_data = None, buf_size = 0\<rparr>"
        and es = "\<lparr>str_data = vector_empty\<rparr>"]
  show ?thesis
    using h h0 e t0 t1 t2 by (simp add: size_bytes_def data_ptr_def)
qed

text \<open>
  C2 as stated fails for SecureBuffer move assignment: after \<^verbatim>\<open>b = std::move(a)\<close>
  with \<open>b\<close> of size 4, the moved-from \<open>a\<close> reports size 4 and holds the block \<open>b\<close> had.
\<close>

theorem SecureBuffer_move_assign_source_counterexample:
  "\<not> isl (SecureBuffer_move_assign demo_state 0 1) \<and>
   map_option size_bytes (buffers (projr (SecureBuffer_move_assign demo_state 0 1)) 1) = Some 4 \<and>
   map_option size_bytes (buffers (projr (SecureBuffer_move_assign demo_state 0 1)) 1) \<noteq> Some 0 \<and>
   map_option data_ptr (buffers (projr (SecureBuffer_move_assign demo_state 0 1)) 1)
     = Some (Some 1)"
proof -
  have h: "(0 :: nat) \<noteq> 1"
    "buffers demo_state 0 = Some \<lparr>buf_data = Some 1, buf_size = 4\<rparr>"
    "buffers demo_state 1 = Some \<lparr>buf_data = Some 5, buf_size = 2\<rparr>"
    "owns (mem demo_state) (buf_data \<lparr>buf_data = Some 1, buf_size = 4\<rparr>)
       (buf_size \<lparr>buf_data = Some 1, buf_size = 4\<rparr>)"
    by (simp_all add: demo_state_def owns_def)
  show ?thesis
    unfolding SecureBuffer_move_assign_owned [OF h] by (simp add: size_bytes_def data_ptr_def)
qed


section \<open>The wipe primitive on null and empty ranges\<close>

lemma vector_ok_empty [simp]: "vector_ok vector_empty"
  by (simp add: vector_ok_def vector_empty_def)

lemma vector_ok_resize: "vector_resize m n = Inr (v, m') \<Longrightarrow> vector_ok v"
  by (auto simp: vector_resize_def vector_ok_def vector_empty_def split: if_splits sum.splits)

lemma vector_ok_move:
  "vector_ok v \<Longrightarrow> vector_ok (fst (vector_move v)) \<and> vector_ok (snd (vector_move v))"
  by (simp add: vector_move_def)

lemma vector_ok_clear: "vector_ok (vector_clear v)"
  by (simp add: vector_ok_def vector_clear_def split: option.splits)

text \<open>Every SecureString operation leaves every object with such a vector.\<close>

lemma SecureString_ctor_vector_ok:
  assumes "\<forall>i x. strings st i = Some x \<longrightarrow> vector_ok (str_data x)"
    and "SecureString_ctor st this s = Inr st'"
  shows "\<forall>i x. strings st' i = Some x \<longrightarrow> vector_ok (str_data x)"
  using assms
  by (auto simp: SecureString_ctor_def Let_def vector_ok_resize
      split: sum.splits prod.splits if_splits)

lemma SecureString_move_ctor_vector_ok:
  assumes "\<forall>i x. strings st i = Some x \<longrightarrow> vector_ok (str_data x)"
    and "SecureString_move_ctor st this other = Inr st'"
  shows "\<forall>i x. strings st' i = Some x \<longrightarrow> vector_ok (str_data x)"
  using assms
  by (auto simp: SecureString_move_ctor_def vector_move_def vector_ok_clear
      split: option.splits sum.splits if_splits)

lemma SecureString_move_assign_vector_ok:
  assumes "\<forall>i x. strings st i = Some x \<longrightarrow> vector_ok (str_data x)"
    and "SecureString_move_assign st this other = Inr st'"
  shows "\<forall>i x. strings st' i = Some x \<longrightarrow> vector_ok (str_data x)"
  using assms
  by (auto simp: SecureString_move_assign_def vector_move_def vector_ok_clear
      split: option.splits sum.splits if_splits)

lemma SecureString_dtor_vector_ok:
  assumes "\<forall>i x. strings st i = Some x \<longrightarrow> vector_ok (str_data x)"
    and "SecureString_dtor st this = Inr st'"
  shows "\<forall>i x. strings st' i = Some x \<longrightarrow> vector_ok (str_data x)"
  using assms
  by (auto simp: SecureString_dtor_def split: option.splits sum.splits if_splits)

text \<open>
  C5: the wipe of SecureBuffer returns the memory untouched when the pointer is null
  or the length is 0. The wipe of SecureString returns the memory untouched when the
  length is 0, whatever the pointer, and when the pointer is null in every call the
  class makes: it is private, and each call passes one vector's \<^verbatim>\<open>data()\<close> and
  \<^verbatim>\<open>size()\<close>, where a null pointer comes with length 0.
\<close>

theorem secure_wipe_guarded:
  "SecureBuffer_secure_wipe m None len = Inr m \<and>
   SecureBuffer_secure_wipe m p 0 = Inr m \<and>
   SecureString_secure_wipe m p 0 = Inr m \<and>
   (vector_ok v \<and> (vbegin v = None \<or> vsize v = 0) \<longrightarrow>
      SecureString_secure_wipe m (vbegin v) (vsize v) = Inr m)"
proof -
  have "vsize v = 0" if "vector_ok v" "vbegin v = None \<or> vsize v = 0"
    using that by (auto simp: vector_ok_def)
  then show ?thesis
    by (auto simp: SecureBuffer_secure_wipe_def SecureString_secure_wipe_def wipe_loop_zero)
qed

text \<open>
  The wipe of a moved-from vector, as the move constructor and the move assignment of
  SecureString call it, on a memory that holds non-zero bytes.
\<close>

theorem secure_wipe_guarded_witness:
  "vector_ok vector_empty \<and> vbegin vector_empty = None \<and>
   SecureString_secure_wipe (mem demo_written) (vbegin vector_empty) (vsize vector_empty)
     = Inr (mem demo_written) \<and>
   SecureBuffer_secure_wipe (mem demo_written) None 4 = Inr (mem demo_written) \<and>
   SecureBuffer_secure_wipe (mem demo_written) (Some 1) 0 = Inr (mem demo_written) \<and>
   SecureString_secure_wipe (mem demo_written) (Some 7) 0 = Inr (mem demo_written)"
proof -
  have h: "vector_ok vector_empty" "vbegin vector_empty = None"
    by (simp_all add: vector_empty_def vector_ok_def)
  note t = secure_wipe_guarded [where m = "mem demo_written" and v = vector_empty]
  from h t [where p = "Some 1" and len = 4] t [where p = "Some 7" and len = 4]
  show ?thesis by simp
qed

text \<open>
  The condition on the vector cannot be dropped: the loop of SecureString has no null
  check of its own, and a call with a null pointer and a non-zero length, which the
  class never makes, would write through the null pointer.
\<close>

lemma SecureString_secure_wipe_loop_unguarded:
  "SecureString_secure_wipe mem0 None 1 = Inl invalid_access"
  by (simp add: SecureString_secure_wipe_def wipe_loop.simps store_def)

end
